theory Spec2Isabelle
  imports Complex_Main
begin

section \<open>Clothoid segments of the Cornucopia library (Clothoid.cpp)\<close>

text \<open>
  A clothoid segment is a parameter vector of six scalars together with a cache derived
  from it by \<open>_paramsChanged\<close>: two regime flags, two scalars mapping arc length to a
  canonical parameter, a 2x2 matrix and a translation.

  The file is modelled in two layers. In the exact layer a \<open>double\<close> is read as a
  \<open>real\<close> and the arithmetic is carried out exactly; it holds every function of the
  file and is the layer of the statements in which neither rounding nor a special
  value decides anything. The IEEE layer (further down) reads a \<open>double\<close> as a finite
  number, an infinity or NaN and takes the rounding of each operation as a parameter;
  it holds the constructor, \<open>_paramsChanged\<close>, \<open>isValid\<close> and \<open>eval\<close>. With the
  rounding that changes nothing, the IEEE layer agrees with the exact layer on finite
  parameters (\<open>paramsChanged_ieee_exact\<close>, \<open>pos_ieee_exact\<close>).

  The constants \<open>PI\<close> and \<open>HALFPI\<close> are \<open>pi\<close> and \<open>pi / 2\<close>. The literals \<open>1e-12\<close> and
  \<open>1e-6\<close> of the regime tests are the doubles these literals denote, which are a little
  smaller than the decimal fractions.
\<close>

definition lit_1e_12 :: real where
  "lit_1e_12 = 4951760157141521 / 2 ^ 92"

definition lit_1e_6 :: real where
  "lit_1e_6 = 4722366482869645 / 2 ^ 72"

subsection \<open>Vectors and 2x2 matrices (Eigen's Vector2d, RowVector2d, Matrix2d)\<close>

type_synonym vec = "real \<times> real"

text \<open>A matrix is the pair of its rows, as the \<open><<\<close> initialiser of the source lists them.\<close>

type_synonym mat2 = "vec \<times> vec"

definition vadd :: "vec \<Rightarrow> vec \<Rightarrow> vec" where
  "vadd u v = (fst u + fst v, snd u + snd v)"

definition vsub :: "vec \<Rightarrow> vec \<Rightarrow> vec" where
  "vsub u v = (fst u - fst v, snd u - snd v)"

definition smul :: "real \<Rightarrow> vec \<Rightarrow> vec" where
  "smul k v = (k * fst v, k * snd v)"

definition sdiv :: "vec \<Rightarrow> real \<Rightarrow> vec" where
  "sdiv v k = (fst v / k, snd v / k)"

definition mat_vec :: "mat2 \<Rightarrow> vec \<Rightarrow> vec" where
  "mat_vec m v = (fst (fst m) * fst v + snd (fst m) * snd v,
                  fst (snd m) * fst v + snd (snd m) * snd v)"

text \<open>Column vector times row vector.\<close>

definition outer :: "vec \<Rightarrow> vec \<Rightarrow> mat2" where
  "outer u r = ((fst u * fst r, fst u * snd r), (snd u * fst r, snd u * snd r))"

definition msub :: "mat2 \<Rightarrow> mat2 \<Rightarrow> mat2" where
  "msub a b = (vsub (fst a) (fst b), vsub (snd a) (snd b))"

definition msmul :: "real \<Rightarrow> mat2 \<Rightarrow> mat2" where
  "msmul k m = (smul k (fst m), smul k (snd m))"

text \<open>\<open>m.col(0) *= -1\<close>\<close>

definition neg_col0 :: "mat2 \<Rightarrow> mat2" where
  "neg_col0 m = ((- fst (fst m), snd (fst m)), (- fst (snd m), snd (snd m)))"

text \<open>\<open>m.col(0) += v\<close> and \<open>m.col(1) += v\<close>\<close>

definition add_col0 :: "mat2 \<Rightarrow> vec \<Rightarrow> mat2" where
  "add_col0 m v = ((fst (fst m) + fst v, snd (fst m)), (fst (snd m) + snd v, snd (snd m)))"

definition add_col1 :: "mat2 \<Rightarrow> vec \<Rightarrow> mat2" where
  "add_col1 m v = ((fst (fst m), snd (fst m) + fst v), (fst (snd m), snd (snd m) + snd v))"

definition transpose2 :: "mat2 \<Rightarrow> mat2" where
  "transpose2 m = ((fst (fst m), fst (snd m)), (snd (fst m), snd (snd m)))"

text \<open>The rotation by an angle, used to state what the cached matrix is.\<close>

definition rotation :: "real \<Rightarrow> mat2" where
  "rotation phi = ((cos phi, - sin phi), (sin phi, cos phi))"

subsection \<open>The parameter vector and the cached state\<close>

text \<open>
  Modelled from the spec: the enumeration that indexes \<open>_params\<close> (and the rows of the
  Jacobian) is declared in the class header, which is not part of the source given. The
  source file uses its six names; their order is the one of the data model, with \<open>X\<close>,
  \<open>Y\<close> the first two (\<open>_params.head<2>()\<close> is the start position) and \<open>DCURVATURE\<close>
  directly after \<open>CURVATURE\<close> (\<open>derivativeAt\<close> writes both rows as one 2x2 block at
  \<open>CURVATURE\<close>).
\<close>

datatype Param = X | Y | ANGLE | LENGTH | CURVATURE | DCURVATURE

record clothoid =
  params :: "Param \<Rightarrow> real"
  arc :: bool
  flat :: bool
  t1 :: real
  tdiff :: real
  mat :: mat2
  startShift :: vec

text \<open>
  The Fresnel evaluator is external to the file (\<open>Fresnel.h\<close>); it is a parameter
  \<open>fresnel\<close> of every function that calls it, returning the pair (S(t), C(t)).
  The source always calls it as \<open>fresnel(t, &(cs[1]), &(cs[0]))\<close>: the sine integral
  goes to the y component, the cosine integral to the x component.
\<close>

definition fresnel_cs :: "(real \<Rightarrow> real \<times> real) \<Rightarrow> real \<Rightarrow> vec" where
  "fresnel_cs fresnel t = (snd (fresnel t), fst (fresnel t))"

text \<open>
  Modelled from the spec: \<open>_startPos()\<close> is declared in the class header, which is not
  part of the source given; it is the start position, the first two parameters.
\<close>

definition startPos :: "(Param \<Rightarrow> real) \<Rightarrow> vec" where
  "startPos p = (p X, p Y)"

subsection \<open>\<open>Clothoid::_paramsChanged\<close>\<close>

text \<open>
  The last line of \<open>_paramsChanged\<close>: every branch has set the flags, the two scalars, the
  matrix and the local \<open>startcs\<close>; the translation is the start position minus the
  image of \<open>startcs\<close>.
\<close>

definition finish ::
  "(Param \<Rightarrow> real) \<Rightarrow> bool \<Rightarrow> bool \<Rightarrow> real \<Rightarrow> real \<Rightarrow> mat2 \<Rightarrow> vec \<Rightarrow> clothoid" where
  "finish p a f t d m startcs =
     \<lparr>params = p, arc = a, flat = f, t1 = t, tdiff = d, mat = m,
      startShift = vsub (startPos p) (mat_vec m startcs)\<rparr>"

definition paramsChanged :: "(real \<Rightarrow> real \<times> real) \<Rightarrow> (Param \<Rightarrow> real) \<Rightarrow> clothoid" where
  "paramsChanged fresnel p =
     (if \<bar>p DCURVATURE\<bar> < lit_1e_12 then
        (if \<bar>p CURVATURE\<bar> < lit_1e_6 then
           (let angle = p ANGLE; cosA = cos angle; sinA = sin angle
            in finish p True True 0 1 ((cosA, - sinA), (sinA, cosA)) (0, 0))
         else
           (let angle = p ANGLE - pi / 2;
                cosAS = cos angle / p CURVATURE; sinAS = sin angle / p CURVATURE
            in finish p True False 0 (p CURVATURE) ((cosAS, - sinAS), (sinAS, cosAS)) (1, 0)))
      else
        (let scale = sqrt \<bar>1 / (pi * p DCURVATURE)\<bar>;
             t = p CURVATURE * scale;
             d = p DCURVATURE * scale;
             m = (if d > 0 then
                    (let angleShift = p ANGLE - t * t * (pi / 2);
                         cosAS = pi * scale * cos angleShift;
                         sinAS = pi * scale * sin angleShift
                     in ((cosAS, - sinAS), (sinAS, cosAS)))
                  else
                    (let angleShift = p ANGLE + t * t * (pi / 2);
                         cosAS = pi * scale * cos angleShift;
                         sinAS = pi * scale * sin angleShift
                     in ((- cosAS, - sinAS), (- sinAS, cosAS))))
         in finish p False False t d m (fresnel_cs fresnel t)))"

subsection \<open>\<open>Clothoid::isValid\<close>, \<open>eval\<close>, \<open>angle\<close>, \<open>curvature\<close>, \<open>project\<close>\<close>

definition isValid :: "clothoid \<Rightarrow> bool" where
  "isValid c = (if params c LENGTH < 0 then False else True)"

text \<open>
  \<open>eval\<close> writes each of its three outputs only when the caller passes a pointer for it.
  The three booleans say which pointers are non-null; an output that is not written is
  \<open>None\<close>.
\<close>

definition eval ::
  "(real \<Rightarrow> real \<times> real) \<Rightarrow> clothoid \<Rightarrow> real \<Rightarrow> bool \<Rightarrow> bool \<Rightarrow> bool \<Rightarrow>
     vec option \<times> vec option \<times> vec option" where
  "eval fresnel c s wpos wder wder2 =
     (let pos_out =
            (if wpos then
               (let t = t1 c + s * tdiff c;
                    cs = (if flat c then (t, 0)
                          else if arc c then (cos t, sin t)
                          else fresnel_cs fresnel t)
                in Some (vadd (startShift c) (mat_vec (mat c) cs)))
             else None)
      in if wder \<or> wder2 then
           (let angle = params c ANGLE
                  + s * (params c CURVATURE + 0.5 * s * params c DCURVATURE);
                cosa = cos angle; sina = sin angle
            in (pos_out,
                if wder then Some (cosa, sina) else None,
                if wder2 then
                  Some (smul (params c CURVATURE + s * params c DCURVATURE) (- sina, cosa))
                else None))
         else (pos_out, None, None))"

definition angle :: "clothoid \<Rightarrow> real \<Rightarrow> real" where
  "angle c s = params c ANGLE + s * (params c CURVATURE + 0.5 * s * params c DCURVATURE)"

definition curvature :: "clothoid \<Rightarrow> real \<Rightarrow> real" where
  "curvature c s = params c CURVATURE + s * params c DCURVATURE"

text \<open>The body of \<open>project\<close> is a TODO followed by \<open>return 0\<close>.\<close>

definition project :: "clothoid \<Rightarrow> vec \<Rightarrow> real" where
  "project c point = 0"

text \<open>
  Modelled from the spec: \<open>pos\<close>, \<open>der\<close>, \<open>der2\<close> (position, tangent, second derivative),
  \<open>endPos\<close>, \<open>endAngle\<close> and \<open>endCurvature\<close> are inline members of the base class, whose
  header is not part of the source given. Each of the first three asks \<open>eval\<close> for one
  output; the last three evaluate at the length parameter.
\<close>

definition pos :: "(real \<Rightarrow> real \<times> real) \<Rightarrow> clothoid \<Rightarrow> real \<Rightarrow> vec" where
  "pos fresnel c s = the (fst (eval fresnel c s True False False))"

definition der :: "(real \<Rightarrow> real \<times> real) \<Rightarrow> clothoid \<Rightarrow> real \<Rightarrow> vec" where
  "der fresnel c s = the (fst (snd (eval fresnel c s False True False)))"

definition der2 :: "(real \<Rightarrow> real \<times> real) \<Rightarrow> clothoid \<Rightarrow> real \<Rightarrow> vec" where
  "der2 fresnel c s = the (snd (snd (eval fresnel c s False False True)))"

definition endPos :: "(real \<Rightarrow> real \<times> real) \<Rightarrow> clothoid \<Rightarrow> vec" where
  "endPos fresnel c = pos fresnel c (params c LENGTH)"

definition endAngle :: "clothoid \<Rightarrow> real" where
  "endAngle c = angle c (params c LENGTH)"

definition endCurvature :: "clothoid \<Rightarrow> real" where
  "endCurvature c = curvature c (params c LENGTH)"

subsection \<open>The normalised angle\<close>

text \<open>
  Modelled from the spec: \<open>AngleUtils::toRange\<close> is declared in a header that is not
  part of the source given. It normalises an angle to a canonical range; the range is
  taken to be the half-open turn starting at \<open>- pi\<close>.
\<close>

definition toRange :: "real \<Rightarrow> real" where
  "toRange a = a - 2 * pi * of_int \<lfloor>(a + pi) / (2 * pi)\<rfloor>"

text \<open>
  Modelled from the spec: the canonical range of a stored angle, the range of \<open>toRange\<close>
  above.
\<close>

definition in_canonical_range :: "real \<Rightarrow> bool" where
  "in_canonical_range a = (- pi \<le> a \<and> a < pi)"

subsection \<open>\<open>Clothoid::trim\<close> and \<open>Clothoid::flip\<close>\<close>

text \<open>
  Both assign the entries of \<open>_params\<close> one after the other, each right side reading
  the vector as the assignments before it have left it, and then call \<open>_paramsChanged\<close>,
  which overwrites every cached member.
\<close>

definition trim :: "(real \<Rightarrow> real \<times> real) \<Rightarrow> clothoid \<Rightarrow> real \<Rightarrow> real \<Rightarrow> clothoid" where
  "trim fresnel c sFrom sTo =
     (let newStart = pos fresnel c sFrom;
          c1 = c\<lparr>params := (params c)(ANGLE := angle c sFrom)\<rparr>;
          c2 = c1\<lparr>params := (params c1)(CURVATURE := curvature c1 sFrom)\<rparr>;
          c3 = c2\<lparr>params := (params c2)(LENGTH := sTo - sFrom)\<rparr>;
          c4 = c3\<lparr>params := (params c3)(X := fst newStart)\<rparr>;
          c5 = c4\<lparr>params := (params c4)(Y := snd newStart)\<rparr>
      in paramsChanged fresnel (params c5))"

definition flip :: "(real \<Rightarrow> real \<times> real) \<Rightarrow> clothoid \<Rightarrow> clothoid" where
  "flip fresnel c =
     (let newStart = endPos fresnel c;
          c1 = c\<lparr>params := (params c)(ANGLE := pi + endAngle c)\<rparr>;
          c2 = c1\<lparr>params := (params c1)(CURVATURE := - endCurvature c1)\<rparr>;
          c3 = c2\<lparr>params := (params c2)(X := fst newStart)\<rparr>;
          c4 = c3\<lparr>params := (params c3)(Y := snd newStart)\<rparr>
      in paramsChanged fresnel (params c4))"

subsection \<open>\<open>Clothoid::derivativeAt\<close>\<close>

text \<open>
  The output matrix has one row for each of the six parameters and two columns; it is a
  function from the row index to the row. \<open>out(r, 0) = v\<close> and \<open>out(r, 1) = v\<close> replace
  one component of a row. The last branch writes the transposed 2x2 result as the block
  of rows \<open>CURVATURE\<close> and \<open>DCURVATURE\<close>.
\<close>

definition set0 :: "(Param \<Rightarrow> vec) \<Rightarrow> Param \<Rightarrow> real \<Rightarrow> (Param \<Rightarrow> vec)" where
  "set0 out r v = out(r := (v, snd (out r)))"

definition set1 :: "(Param \<Rightarrow> vec) \<Rightarrow> Param \<Rightarrow> real \<Rightarrow> (Param \<Rightarrow> vec)" where
  "set1 out r v = out(r := (fst (out r), v))"

definition derivativeAt :: "(real \<Rightarrow> real \<times> real) \<Rightarrow> clothoid \<Rightarrow> real \<Rightarrow> (Param \<Rightarrow> vec)" where
  "derivativeAt fresnel c s =
     (let out0 = (\<lambda>r. (0, 0));
          out1 = set0 out0 X 1;
          out2 = set1 out1 Y 1;
          diff = vsub (pos fresnel c s) (startPos (params c));
          out3 = set0 out2 ANGLE (- snd diff);
          out4 = set1 out3 ANGLE (fst diff)
      in if flat c then
           (let nsinCos = (- sin (params c ANGLE), cos (params c ANGLE));
                out5 = out4(CURVATURE := smul (0.5 * s * s) nsinCos)
            in out5(DCURVATURE := smul (0.5 / 3 * s * s * s) nsinCos))
         else if arc c then
           (let curv = params c CURVATURE;
                curAngle = angle c s;
                cosCur = cos curAngle; sinCur = sin curAngle;
                cosStart = cos (params c ANGLE); sinStart = sin (params c ANGLE);
                curvs = curv * s;
                curvDer = (curvs * cosCur + sinStart - sinCur,
                           curvs * sinCur + cosCur - cosStart);
                out5 = out4(CURVATURE := sdiv curvDer (curv * curv));
                dcurvDer = (cosStart + (curvs * curvs * 0.5 - 1) * cosCur - curvs * sinCur,
                            sinStart + (curvs * curvs * 0.5 - 1) * sinCur + curvs * cosCur)
            in out5(DCURVATURE := sdiv dcurvDer (curv * curv * curv)))
         else
           (let t = t1 c + s * tdiff c;
                scale = sqrt \<bar>1 / (pi * params c DCURVATURE)\<bar>;
                dt1dx = (scale, - params c CURVATURE * scale / (2 * params c DCURVATURE));
                dtdx = vadd dt1dx (0, scale * s * 0.5);
                cs = fresnel_cs fresnel t;
                startcs = fresnel_cs fresnel (t1 c);
                basicAngle = pi / 2 * t1 c * t1 c;
                dstartcs = (cos basicAngle, sin basicAngle);
                dcs = (cos (pi / 2 * t * t), sin (pi / 2 * t * t));
                result = msub (outer (mat_vec (mat c) dcs) dtdx)
                              (outer (mat_vec (mat c) dstartcs) dt1dx);
                angleShift = (if tdiff c > 0
                              then params c ANGLE - t1 c * t1 c * (pi / 2)
                              else params c ANGLE + t1 c * t1 c * (pi / 2));
                cosAS = cos angleShift; sinAS = sin angleShift;
                dmatdc = msmul (pi * scale * params c CURVATURE / params c DCURVATURE)
                               ((sinAS, cosAS), (- cosAS, sinAS));
                curvSqr = params c CURVATURE * params c CURVATURE;
                d00 = - params c DCURVATURE * cosAS - curvSqr * sinAS;
                d11 = d00;
                d01 = params c DCURVATURE * sinAS - curvSqr * cosAS;
                d10 = - d01;
                dmatdd = msmul (pi / 2 * scale / (params c DCURVATURE * params c DCURVATURE))
                               ((d00, d01), (d10, d11));
                dmatdc2 = (if tdiff c < 0 then neg_col0 dmatdc else dmatdc);
                dmatdd2 = (if tdiff c < 0 then neg_col0 dmatdd else dmatdd);
                result1 = add_col0 result (mat_vec dmatdc2 (vsub cs startcs));
                result2 = add_col1 result1 (mat_vec dmatdd2 (vsub cs startcs));
                rt = transpose2 result2
            in out4(CURVATURE := fst rt, DCURVATURE := snd rt)))"

section \<open>The IEEE layer\<close>

text \<open>
  A \<open>double\<close> is a finite number, one of the two infinities or NaN. The operations are
  those of IEEE 754 on these values: NaN propagates, every comparison with NaN is false,
  a finite non-zero number divided by zero is an infinity, zero divided by zero and
  infinity times zero are NaN. The result of an operation on finite numbers is the exact
  result passed through the rounding \<open>rnd\<close>, a parameter.

  Three things are left out. The two zeros are one value, read as \<open>+0.0\<close>; in this file
  the sign of a zero can change a result only as the sign of the infinity of a quotient
  with a zero divisor. Overflow and underflow are not modelled: the exponent range is
  unbounded. A function of the C library (\<open>cos\<close>, \<open>sin\<close>, \<open>sqrt\<close>) returns its exact
  value rounded.
\<close>

datatype double = Fin real | PInf | NInf | NaN

fun is_finite :: "double \<Rightarrow> bool" where
  "is_finite (Fin x) = True"
| "is_finite PInf = False"
| "is_finite NInf = False"
| "is_finite NaN = False"

fun is_neg :: "double \<Rightarrow> bool" where
  "is_neg (Fin x) = (x < 0)"
| "is_neg PInf = False"
| "is_neg NInf = True"
| "is_neg NaN = False"

definition inf_of :: "bool \<Rightarrow> double" where
  "inf_of negative = (if negative then NInf else PInf)"

fun xneg :: "double \<Rightarrow> double" where
  "xneg (Fin x) = Fin (- x)"
| "xneg PInf = NInf"
| "xneg NInf = PInf"
| "xneg NaN = NaN"

fun xabs :: "double \<Rightarrow> double" where
  "xabs (Fin x) = Fin \<bar>x\<bar>"
| "xabs PInf = PInf"
| "xabs NInf = PInf"
| "xabs NaN = NaN"

fun xless :: "double \<Rightarrow> double \<Rightarrow> bool" where
  "xless NaN y = False"
| "xless x NaN = False"
| "xless (Fin x) (Fin y) = (x < y)"
| "xless NInf NInf = False"
| "xless NInf y = True"
| "xless x NInf = False"
| "xless PInf y = False"
| "xless x PInf = True"

fun xadd :: "(real \<Rightarrow> real) \<Rightarrow> double \<Rightarrow> double \<Rightarrow> double" where
  "xadd rnd NaN y = NaN"
| "xadd rnd x NaN = NaN"
| "xadd rnd (Fin x) (Fin y) = Fin (rnd (x + y))"
| "xadd rnd PInf NInf = NaN"
| "xadd rnd NInf PInf = NaN"
| "xadd rnd PInf y = PInf"
| "xadd rnd x PInf = PInf"
| "xadd rnd NInf y = NInf"
| "xadd rnd x NInf = NInf"

definition xsub :: "(real \<Rightarrow> real) \<Rightarrow> double \<Rightarrow> double \<Rightarrow> double" where
  "xsub rnd x y = xadd rnd x (xneg y)"

fun xmul :: "(real \<Rightarrow> real) \<Rightarrow> double \<Rightarrow> double \<Rightarrow> double" where
  "xmul rnd NaN y = NaN"
| "xmul rnd x NaN = NaN"
| "xmul rnd (Fin x) (Fin y) = Fin (rnd (x * y))"
| "xmul rnd (Fin x) y = (if x = 0 then NaN else inf_of (is_neg (Fin x) \<noteq> is_neg y))"
| "xmul rnd x (Fin y) = (if y = 0 then NaN else inf_of (is_neg x \<noteq> is_neg (Fin y)))"
| "xmul rnd x y = inf_of (is_neg x \<noteq> is_neg y)"

fun xdiv :: "(real \<Rightarrow> real) \<Rightarrow> double \<Rightarrow> double \<Rightarrow> double" where
  "xdiv rnd NaN y = NaN"
| "xdiv rnd x NaN = NaN"
| "xdiv rnd (Fin x) (Fin y) =
     (if y = 0 then (if x = 0 then NaN else inf_of (x < 0)) else Fin (rnd (x / y)))"
| "xdiv rnd (Fin x) y = Fin 0"
| "xdiv rnd x (Fin y) = inf_of (is_neg x \<noteq> (y < 0))"
| "xdiv rnd x y = NaN"

fun xsqrt :: "(real \<Rightarrow> real) \<Rightarrow> double \<Rightarrow> double" where
  "xsqrt rnd (Fin x) = (if x < 0 then NaN else Fin (rnd (sqrt x)))"
| "xsqrt rnd PInf = PInf"
| "xsqrt rnd NInf = NaN"
| "xsqrt rnd NaN = NaN"

fun xcos :: "(real \<Rightarrow> real) \<Rightarrow> double \<Rightarrow> double" where
  "xcos rnd (Fin x) = Fin (rnd (cos x))"
| "xcos rnd PInf = NaN"
| "xcos rnd NInf = NaN"
| "xcos rnd NaN = NaN"

fun xsin :: "(real \<Rightarrow> real) \<Rightarrow> double \<Rightarrow> double" where
  "xsin rnd (Fin x) = Fin (rnd (sin x))"
| "xsin rnd PInf = NaN"
| "xsin rnd NInf = NaN"
| "xsin rnd NaN = NaN"

text \<open>
  Two roundings: \<open>exact\<close> changes nothing; \<open>round53\<close> rounds to the nearest number with a
  significand of 53 bits, ties to the even one, as the default rounding of a \<open>double\<close> does.
\<close>

definition exact :: "real \<Rightarrow> real" where
  "exact x = x"

definition rne :: "real \<Rightarrow> int" where
  "rne y = (let f = \<lfloor>y\<rfloor>; r = y - of_int f
            in if r < 1 / 2 then f else if 1 / 2 < r then f + 1
               else if even f then f else f + 1)"

definition round53 :: "real \<Rightarrow> real" where
  "round53 x =
     (if x = 0 then 0
      else (let u = 2 powr (of_int \<lfloor>log 2 \<bar>x\<bar>\<rfloor> - 52) in of_int (rne (x / u)) * u))"

type_synonym dvec = "double \<times> double"

type_synonym dmat = "dvec \<times> dvec"

definition vadd_ieee :: "(real \<Rightarrow> real) \<Rightarrow> dvec \<Rightarrow> dvec \<Rightarrow> dvec" where
  "vadd_ieee rnd u v = (xadd rnd (fst u) (fst v), xadd rnd (snd u) (snd v))"

definition vsub_ieee :: "(real \<Rightarrow> real) \<Rightarrow> dvec \<Rightarrow> dvec \<Rightarrow> dvec" where
  "vsub_ieee rnd u v = (xsub rnd (fst u) (fst v), xsub rnd (snd u) (snd v))"

definition mat_vec_ieee :: "(real \<Rightarrow> real) \<Rightarrow> dmat \<Rightarrow> dvec \<Rightarrow> dvec" where
  "mat_vec_ieee rnd m v =
     (xadd rnd (xmul rnd (fst (fst m)) (fst v)) (xmul rnd (snd (fst m)) (snd v)),
      xadd rnd (xmul rnd (fst (snd m)) (fst v)) (xmul rnd (snd (snd m)) (snd v)))"

subsection \<open>The segment over doubles\<close>

record clothoid_ieee =
  params_ieee :: "Param \<Rightarrow> double"
  arc_ieee :: bool
  flat_ieee :: bool
  t1_ieee :: double
  tdiff_ieee :: double
  mat_ieee :: dmat
  startShift_ieee :: dvec

text \<open>
  The Fresnel evaluator on doubles is a parameter, as in the exact layer; nothing is
  assumed of its values at an infinity or NaN.
\<close>

definition fresnel_cs_ieee :: "(double \<Rightarrow> double \<times> double) \<Rightarrow> double \<Rightarrow> dvec" where
  "fresnel_cs_ieee fresnel t = (snd (fresnel t), fst (fresnel t))"

text \<open>
  \<open>Clothoid::_paramsChanged\<close> over doubles: the same branches as \<open>paramsChanged\<close>, each
  operation an IEEE operation. \<open>PI\<close> and \<open>HALFPI\<close> are the rounded \<open>pi\<close> and \<open>pi / 2\<close>.
\<close>

definition finish_ieee ::
  "(real \<Rightarrow> real) \<Rightarrow> (Param \<Rightarrow> double) \<Rightarrow> bool \<Rightarrow> bool \<Rightarrow> double \<Rightarrow> double \<Rightarrow> dmat \<Rightarrow> dvec
     \<Rightarrow> clothoid_ieee" where
  "finish_ieee rnd p a f t d m startcs =
     \<lparr>params_ieee = p, arc_ieee = a, flat_ieee = f, t1_ieee = t, tdiff_ieee = d, mat_ieee = m,
      startShift_ieee = vsub_ieee rnd (p X, p Y) (mat_vec_ieee rnd m startcs)\<rparr>"

definition paramsChanged_ieee ::
  "(real \<Rightarrow> real) \<Rightarrow> (double \<Rightarrow> double \<times> double) \<Rightarrow> (Param \<Rightarrow> double) \<Rightarrow> clothoid_ieee" where
  "paramsChanged_ieee rnd fresnel p =
     (if xless (xabs (p DCURVATURE)) (Fin lit_1e_12) then
        (if xless (xabs (p CURVATURE)) (Fin lit_1e_6) then
           (let angle = p ANGLE; cosA = xcos rnd angle; sinA = xsin rnd angle
            in finish_ieee rnd p True True (Fin 0) (Fin 1)
                 ((cosA, xneg sinA), (sinA, cosA)) (Fin 0, Fin 0))
         else
           (let angle = xsub rnd (p ANGLE) (Fin (rnd (pi / 2)));
                cosAS = xdiv rnd (xcos rnd angle) (p CURVATURE);
                sinAS = xdiv rnd (xsin rnd angle) (p CURVATURE)
            in finish_ieee rnd p True False (Fin 0) (p CURVATURE)
                 ((cosAS, xneg sinAS), (sinAS, cosAS)) (Fin 1, Fin 0)))
      else
        (let scale = xsqrt rnd (xabs (xdiv rnd (Fin 1) (xmul rnd (Fin (rnd pi)) (p DCURVATURE))));
             t = xmul rnd (p CURVATURE) scale;
             d = xmul rnd (p DCURVATURE) scale;
             m = (if xless (Fin 0) d then
                    (let angleShift = xsub rnd (p ANGLE) (xmul rnd (xmul rnd t t) (Fin (rnd (pi / 2))));
                         cosAS = xmul rnd (xmul rnd (Fin (rnd pi)) scale) (xcos rnd angleShift);
                         sinAS = xmul rnd (xmul rnd (Fin (rnd pi)) scale) (xsin rnd angleShift)
                     in ((cosAS, xneg sinAS), (sinAS, cosAS)))
                  else
                    (let angleShift = xadd rnd (p ANGLE) (xmul rnd (xmul rnd t t) (Fin (rnd (pi / 2))));
                         cosAS = xmul rnd (xmul rnd (Fin (rnd pi)) scale) (xcos rnd angleShift);
                         sinAS = xmul rnd (xmul rnd (Fin (rnd pi)) scale) (xsin rnd angleShift)
                     in ((xneg cosAS, xneg sinAS), (xneg sinAS, cosAS))))
         in finish_ieee rnd p False False t d m (fresnel_cs_ieee fresnel t)))"

text \<open>\<open>Clothoid::isValid\<close> and \<open>Clothoid::eval\<close> over doubles.\<close>

definition isValid_ieee :: "clothoid_ieee \<Rightarrow> bool" where
  "isValid_ieee c = (if xless (params_ieee c LENGTH) (Fin 0) then False else True)"

definition eval_ieee ::
  "(real \<Rightarrow> real) \<Rightarrow> (double \<Rightarrow> double \<times> double) \<Rightarrow> clothoid_ieee \<Rightarrow> double \<Rightarrow> bool \<Rightarrow> bool \<Rightarrow> bool \<Rightarrow>
     dvec option \<times> dvec option \<times> dvec option" where
  "eval_ieee rnd fresnel c s wpos wder wder2 =
     (let pos_out =
            (if wpos then
               (let t = xadd rnd (t1_ieee c) (xmul rnd s (tdiff_ieee c));
                    cs = (if flat_ieee c then (t, Fin 0)
                          else if arc_ieee c then (xcos rnd t, xsin rnd t)
                          else fresnel_cs_ieee fresnel t)
                in Some (vadd_ieee rnd (startShift_ieee c) (mat_vec_ieee rnd (mat_ieee c) cs)))
             else None)
      in if wder \<or> wder2 then
           (let angle = xadd rnd (params_ieee c ANGLE)
                          (xmul rnd s
                             (xadd rnd (params_ieee c CURVATURE)
                                (xmul rnd (xmul rnd (Fin 0.5) s) (params_ieee c DCURVATURE))));
                cosa = xcos rnd angle; sina = xsin rnd angle;
                k = xadd rnd (params_ieee c CURVATURE) (xmul rnd s (params_ieee c DCURVATURE))
            in (pos_out,
                if wder then Some (cosa, sina) else None,
                if wder2 then Some (xmul rnd k (xneg sina), xmul rnd k cosa) else None))
         else (pos_out, None, None))"

definition pos_ieee ::
  "(real \<Rightarrow> real) \<Rightarrow> (double \<Rightarrow> double \<times> double) \<Rightarrow> clothoid_ieee \<Rightarrow> double \<Rightarrow> dvec" where
  "pos_ieee rnd fresnel c s = the (fst (eval_ieee rnd fresnel c s True False False))"

subsection \<open>The constructor\<close>

text \<open>
  Modelled from the spec: \<open>AngleUtils::toRange\<close> on doubles, the normalisation above on
  a finite angle; an infinite angle or NaN has no normalised value.
\<close>

fun toRange_ieee :: "double \<Rightarrow> double" where
  "toRange_ieee (Fin a) = Fin (toRange a)"
| "toRange_ieee PInf = NaN"
| "toRange_ieee NInf = NaN"
| "toRange_ieee NaN = NaN"

text \<open>
  The constructor fills the six parameters and calls \<open>_paramsChanged\<close>. The slope is the
  quotient of the curvature difference by the length, computed whatever the length is;
  there is no branch on it.
\<close>

definition Clothoid ::
  "(real \<Rightarrow> real) \<Rightarrow> (double \<Rightarrow> double \<times> double) \<Rightarrow> dvec \<Rightarrow> double \<Rightarrow> double \<Rightarrow> double \<Rightarrow> double
     \<Rightarrow> clothoid_ieee" where
  "Clothoid rnd fresnel start startAngle len curv endCurv =
     paramsChanged_ieee rnd fresnel
       (\<lambda>i. case i of
          X \<Rightarrow> fst start
        | Y \<Rightarrow> snd start
        | ANGLE \<Rightarrow> toRange_ieee startAngle
        | LENGTH \<Rightarrow> len
        | CURVATURE \<Rightarrow> curv
        | DCURVATURE \<Rightarrow> xdiv rnd (xsub rnd endCurv curv) len)"

subsection \<open>From the exact layer to the IEEE layer\<close>

text \<open>An exact segment read as a segment over doubles, all of its numbers finite.\<close>

definition fin_vec :: "vec \<Rightarrow> dvec" where
  "fin_vec v = (Fin (fst v), Fin (snd v))"

definition as_ieee :: "clothoid \<Rightarrow> clothoid_ieee" where
  "as_ieee c =
     \<lparr>params_ieee = (\<lambda>i. Fin (params c i)), arc_ieee = arc c, flat_ieee = flat c,
      t1_ieee = Fin (t1 c), tdiff_ieee = Fin (tdiff c),
      mat_ieee = (fin_vec (fst (mat c)), fin_vec (snd (mat c))),
      startShift_ieee = fin_vec (startShift c)\<rparr>"

text \<open>
  The local \<open>startcs\<close> of \<open>_paramsChanged\<close>, the canonical start point, read back from
  the flags and the offset it leaves in the cache.
\<close>

definition startcs_ieee :: "(double \<Rightarrow> double \<times> double) \<Rightarrow> clothoid_ieee \<Rightarrow> dvec" where
  "startcs_ieee fresnel c =
     (if flat_ieee c then (Fin 0, Fin 0)
      else if arc_ieee c then (Fin 1, Fin 0)
      else fresnel_cs_ieee fresnel (t1_ieee c))"

section \<open>Notions used in the proofs and concrete segments\<close>

subsection \<open>Notions used in the proofs\<close>

text \<open>
  The scale and the matrix of the general regime as functions of start angle, curvature
  and slope, and the displacement of the position from the start position.
\<close>

definition gscale :: "real \<Rightarrow> real" where
  "gscale d = sqrt \<bar>1 / (pi * d)\<bar>"

definition reflection :: "real \<Rightarrow> mat2" where
  "reflection phi = ((- cos phi, - sin phi), (- sin phi, cos phi))"

definition gmat :: "real \<Rightarrow> real \<Rightarrow> real \<Rightarrow> mat2" where
  "gmat a k d =
     (if d * gscale d > 0
      then msmul (pi * gscale d) (rotation (a - (k * gscale d) * (k * gscale d) * (pi / 2)))
      else msmul (pi * gscale d) (reflection (a + (k * gscale d) * (k * gscale d) * (pi / 2))))"

definition offset :: "(real \<Rightarrow> real \<times> real) \<Rightarrow> (Param \<Rightarrow> real) \<Rightarrow> real \<Rightarrow> vec" where
  "offset fresnel p s = vsub (pos fresnel (paramsChanged fresnel p) s) (startPos p)"

subsection \<open>Concrete segments\<close>

text \<open>
  Two segments of the arc regime, where no branch calls the Fresnel evaluator; the
  evaluator passed along is a stand-in. \<open>unit_arc\<close> is the arc of curvature 1 and length
  1 from the origin; \<open>shallow\<close> has curvature \<open>5e-7\<close>, below the flat threshold, and
  length \<open>2e6\<close>.
\<close>

definition fresnel0 :: "real \<Rightarrow> real \<times> real" where
  "fresnel0 t = (0, 0)"

definition unit_arc :: clothoid where
  "unit_arc = paramsChanged fresnel0
     (\<lambda>i. case i of X \<Rightarrow> 0 | Y \<Rightarrow> 0 | ANGLE \<Rightarrow> 0 | LENGTH \<Rightarrow> 1
                   | CURVATURE \<Rightarrow> 1 | DCURVATURE \<Rightarrow> 0)"

definition shallow :: clothoid where
  "shallow = paramsChanged fresnel0
     (\<lambda>i. case i of X \<Rightarrow> 0 | Y \<Rightarrow> 0 | ANGLE \<Rightarrow> 0 | LENGTH \<Rightarrow> 2000000
                   | CURVATURE \<Rightarrow> 1 / 2000000 | DCURVATURE \<Rightarrow> 0)"

text \<open>
  The stand-in on doubles; \<open>degenerate\<close>, the segment the constructor builds from start
  (1, 2), length 0 and equal curvatures; \<open>absorbing\<close>, a parameter vector of the
  circular-arc regime with curvature \<open>2^-10\<close>, start angle \<open>HALFPI\<close> and start
  \<open>(2^-60, 0)\<close>.
\<close>

definition fresnel0_ieee :: "double \<Rightarrow> double \<times> double" where
  "fresnel0_ieee t = (Fin 0, Fin 0)"

definition degenerate :: clothoid_ieee where
  "degenerate = Clothoid round53 fresnel0_ieee (Fin 1, Fin 2) (Fin 0) (Fin 0) (Fin 0) (Fin 0)"

definition absorbing :: "Param \<Rightarrow> double" where
  "absorbing =
     (\<lambda>i. case i of X \<Rightarrow> Fin (1 / 2 ^ 60) | Y \<Rightarrow> Fin 0 | ANGLE \<Rightarrow> Fin (round53 (pi / 2))
                   | LENGTH \<Rightarrow> Fin 1 | CURVATURE \<Rightarrow> Fin (1 / 1024) | DCURVATURE \<Rightarrow> Fin 0)"

section \<open>Properties of the exact layer\<close>

subsection \<open>Validity and the projection stub\<close>

text \<open>
  C8. \<open>isValid\<close> returns false exactly when the length parameter is negative. The right
  side reads nothing but the length entry, so no other property of the segment is
  checked, and length 0 is valid.
\<close>

theorem isValid_iff_length_nonneg:
  "isValid c = (\<not> params c LENGTH < 0) \<and> isValid (c\<lparr>params := (params c)(LENGTH := 0)\<rparr>)"
  by (simp add: isValid_def)

text \<open>
  C10. \<open>project\<close> returns the same fixed value, 0, for every point and every segment.
\<close>

theorem project_constant:
  "project c p = project c' q \<and> project c p = 0"
  by (simp add: project_def)

subsection \<open>What \<open>_paramsChanged\<close> caches in the two arc sub-regimes\<close>

lemma paramsChanged_flat:
  "\<bar>p DCURVATURE\<bar> < lit_1e_12 \<Longrightarrow> \<bar>p CURVATURE\<bar> < lit_1e_6 \<Longrightarrow>
   paramsChanged fresnel p = finish p True True 0 1 (rotation (p ANGLE)) (0, 0)"
  by (simp add: paramsChanged_def Let_def rotation_def)

lemma paramsChanged_arc:
  "\<bar>p DCURVATURE\<bar> < lit_1e_12 \<Longrightarrow> \<not> \<bar>p CURVATURE\<bar> < lit_1e_6 \<Longrightarrow>
   paramsChanged fresnel p
     = finish p True False 0 (p CURVATURE)
         (msmul (1 / p CURVATURE) (rotation (p ANGLE - pi / 2))) (1, 0)"
  by (simp add: paramsChanged_def Let_def rotation_def msmul_def smul_def)

lemma paramsChanged_general_flags:
  "\<not> \<bar>p DCURVATURE\<bar> < lit_1e_12 \<Longrightarrow>
   \<not> arc (paramsChanged fresnel p) \<and> \<not> flat (paramsChanged fresnel p)"
  by (simp add: paramsChanged_def Let_def finish_def)

lemma params_paramsChanged [simp]: "params (paramsChanged fresnel p) = p"
  by (simp add: paramsChanged_def Let_def finish_def)

text \<open>
  The divisions of \<open>_paramsChanged\<close> (and of the matching branches of \<open>derivativeAt\<close>)
  are guarded by the regime tests: the branch that divides by the curvature has a
  curvature of magnitude at least \<open>1e-6\<close>, the branch that divides by the curvature
  slope a slope of magnitude at least \<open>1e-12\<close>.
\<close>

lemma lit_pos [simp]: "0 < lit_1e_12" "0 < lit_1e_6"
  by (simp_all add: lit_1e_12_def lit_1e_6_def)

lemma guarded_divisors:
  "\<not> \<bar>k\<bar> < lit_1e_6 \<Longrightarrow> (k::real) \<noteq> 0"
  "\<not> \<bar>d\<bar> < lit_1e_12 \<Longrightarrow> pi * (d::real) \<noteq> 0"
  by auto

lemma paramsChanged_ieee_flat:
  "xless (xabs (q DCURVATURE)) (Fin lit_1e_12) \<Longrightarrow> xless (xabs (q CURVATURE)) (Fin lit_1e_6) \<Longrightarrow>
   paramsChanged_ieee rnd fx q
     = finish_ieee rnd q True True (Fin 0) (Fin 1)
         ((xcos rnd (q ANGLE), xneg (xsin rnd (q ANGLE))),
          (xsin rnd (q ANGLE), xcos rnd (q ANGLE))) (Fin 0, Fin 0)"
  by (simp add: paramsChanged_ieee_def Let_def)

lemma paramsChanged_ieee_arc:
  "xless (xabs (q DCURVATURE)) (Fin lit_1e_12) \<Longrightarrow> \<not> xless (xabs (q CURVATURE)) (Fin lit_1e_6) \<Longrightarrow>
   paramsChanged_ieee rnd fx q
     = finish_ieee rnd q True False (Fin 0) (q CURVATURE)
         ((xdiv rnd (xcos rnd (xsub rnd (q ANGLE) (Fin (rnd (pi / 2))))) (q CURVATURE),
           xneg (xdiv rnd (xsin rnd (xsub rnd (q ANGLE) (Fin (rnd (pi / 2))))) (q CURVATURE))),
          (xdiv rnd (xsin rnd (xsub rnd (q ANGLE) (Fin (rnd (pi / 2))))) (q CURVATURE),
           xdiv rnd (xcos rnd (xsub rnd (q ANGLE) (Fin (rnd (pi / 2))))) (q CURVATURE)))
         (Fin 1, Fin 0)"
  by (simp add: paramsChanged_ieee_def Let_def)

lemma paramsChanged_ieee_general_flags:
  "\<not> xless (xabs (q DCURVATURE)) (Fin lit_1e_12) \<Longrightarrow>
   \<not> arc_ieee (paramsChanged_ieee rnd fx q) \<and> \<not> flat_ieee (paramsChanged_ieee rnd fx q)"
  by (simp add: paramsChanged_ieee_def Let_def finish_ieee_def)

text \<open>
  C3. The arc flag is set exactly when the slope is below the double \<open>1e-12\<close> in
  magnitude, the flat flag exactly when moreover the curvature is below the double
  \<open>1e-6\<close> in magnitude. In both arc sub-regimes the offset \<open>t1\<close> is 0. In the flat
  sub-regime the scale is 1, the matrix is the rotation by the start angle and the
  canonical start point is (0, 0); in the circular-arc sub-regime the scale is the
  curvature, the matrix is the rotation by the start angle minus a quarter turn scaled by
  the inverse curvature, and the canonical start point is (1, 0). (The arguments of
  \<open>finish\<close> are the two flags, offset, scale, matrix and canonical start point.) The
  second half states the same of \<open>_paramsChanged\<close> over doubles, for every parameter
  vector, NaN and infinities included, and every rounding: there the entries of the
  matrix are the rounded cosine and sine, divided by the curvature in the circular-arc
  sub-regime.
\<close>

theorem regime_classifier:
  "(arc (paramsChanged fresnel p) \<longleftrightarrow> \<bar>p DCURVATURE\<bar> < lit_1e_12) \<and>
   (flat (paramsChanged fresnel p) \<longleftrightarrow>
      \<bar>p DCURVATURE\<bar> < lit_1e_12 \<and> \<bar>p CURVATURE\<bar> < lit_1e_6) \<and>
   (arc (paramsChanged fresnel p) \<longrightarrow> t1 (paramsChanged fresnel p) = 0) \<and>
   (flat (paramsChanged fresnel p) \<longrightarrow>
      tdiff (paramsChanged fresnel p) = 1 \<and>
      mat (paramsChanged fresnel p) = rotation (p ANGLE) \<and>
      startShift (paramsChanged fresnel p)
        = vsub (p X, p Y) (mat_vec (mat (paramsChanged fresnel p)) (0, 0)) \<and>
      paramsChanged fresnel p = finish p True True 0 1 (rotation (p ANGLE)) (0, 0)) \<and>
   (arc (paramsChanged fresnel p) \<and> \<not> flat (paramsChanged fresnel p) \<longrightarrow>
      tdiff (paramsChanged fresnel p) = p CURVATURE \<and>
      mat (paramsChanged fresnel p) = msmul (1 / p CURVATURE) (rotation (p ANGLE - pi / 2)) \<and>
      startShift (paramsChanged fresnel p)
        = vsub (p X, p Y) (mat_vec (mat (paramsChanged fresnel p)) (1, 0)) \<and>
      paramsChanged fresnel p
        = finish p True False 0 (p CURVATURE)
            (msmul (1 / p CURVATURE) (rotation (p ANGLE - pi / 2))) (1, 0)) \<and>
   (arc_ieee (paramsChanged_ieee rnd fx q) \<longleftrightarrow> xless (xabs (q DCURVATURE)) (Fin lit_1e_12)) \<and>
   (flat_ieee (paramsChanged_ieee rnd fx q) \<longleftrightarrow>
      xless (xabs (q DCURVATURE)) (Fin lit_1e_12) \<and> xless (xabs (q CURVATURE)) (Fin lit_1e_6)) \<and>
   (arc_ieee (paramsChanged_ieee rnd fx q) \<longrightarrow> t1_ieee (paramsChanged_ieee rnd fx q) = Fin 0) \<and>
   (flat_ieee (paramsChanged_ieee rnd fx q) \<longrightarrow>
      tdiff_ieee (paramsChanged_ieee rnd fx q) = Fin 1 \<and>
      mat_ieee (paramsChanged_ieee rnd fx q)
        = ((xcos rnd (q ANGLE), xneg (xsin rnd (q ANGLE))),
           (xsin rnd (q ANGLE), xcos rnd (q ANGLE))) \<and>
      startcs_ieee fx (paramsChanged_ieee rnd fx q) = (Fin 0, Fin 0)) \<and>
   (arc_ieee (paramsChanged_ieee rnd fx q) \<and> \<not> flat_ieee (paramsChanged_ieee rnd fx q) \<longrightarrow>
      tdiff_ieee (paramsChanged_ieee rnd fx q) = q CURVATURE \<and>
      mat_ieee (paramsChanged_ieee rnd fx q)
        = ((xdiv rnd (xcos rnd (xsub rnd (q ANGLE) (Fin (rnd (pi / 2))))) (q CURVATURE),
            xneg (xdiv rnd (xsin rnd (xsub rnd (q ANGLE) (Fin (rnd (pi / 2))))) (q CURVATURE))),
           (xdiv rnd (xsin rnd (xsub rnd (q ANGLE) (Fin (rnd (pi / 2))))) (q CURVATURE),
            xdiv rnd (xcos rnd (xsub rnd (q ANGLE) (Fin (rnd (pi / 2))))) (q CURVATURE))) \<and>
      startcs_ieee fx (paramsChanged_ieee rnd fx q) = (Fin 1, Fin 0))"
proof -
  have exact_layer:
    "(arc (paramsChanged fresnel p) \<longleftrightarrow> \<bar>p DCURVATURE\<bar> < lit_1e_12) \<and>
     (flat (paramsChanged fresnel p) \<longleftrightarrow>
        \<bar>p DCURVATURE\<bar> < lit_1e_12 \<and> \<bar>p CURVATURE\<bar> < lit_1e_6) \<and>
     (arc (paramsChanged fresnel p) \<longrightarrow> t1 (paramsChanged fresnel p) = 0) \<and>
     (flat (paramsChanged fresnel p) \<longrightarrow>
        tdiff (paramsChanged fresnel p) = 1 \<and>
        mat (paramsChanged fresnel p) = rotation (p ANGLE) \<and>
        startShift (paramsChanged fresnel p)
          = vsub (p X, p Y) (mat_vec (mat (paramsChanged fresnel p)) (0, 0)) \<and>
        paramsChanged fresnel p = finish p True True 0 1 (rotation (p ANGLE)) (0, 0)) \<and>
     (arc (paramsChanged fresnel p) \<and> \<not> flat (paramsChanged fresnel p) \<longrightarrow>
        tdiff (paramsChanged fresnel p) = p CURVATURE \<and>
        mat (paramsChanged fresnel p) = msmul (1 / p CURVATURE) (rotation (p ANGLE - pi / 2)) \<and>
        startShift (paramsChanged fresnel p)
          = vsub (p X, p Y) (mat_vec (mat (paramsChanged fresnel p)) (1, 0)) \<and>
        paramsChanged fresnel p
          = finish p True False 0 (p CURVATURE)
              (msmul (1 / p CURVATURE) (rotation (p ANGLE - pi / 2))) (1, 0))"
  proof (cases "\<bar>p DCURVATURE\<bar> < lit_1e_12")
    case arcT: True
    show ?thesis
    proof (cases "\<bar>p CURVATURE\<bar> < lit_1e_6")
      case True
      have pc: "paramsChanged fresnel p = finish p True True 0 1 (rotation (p ANGLE)) (0, 0)"
        by (rule paramsChanged_flat [OF arcT True])
      have fl: "arc (paramsChanged fresnel p)" "flat (paramsChanged fresnel p)"
               "t1 (paramsChanged fresnel p) = 0" "tdiff (paramsChanged fresnel p) = 1"
               "mat (paramsChanged fresnel p) = rotation (p ANGLE)"
               "startShift (paramsChanged fresnel p)
                  = vsub (p X, p Y) (mat_vec (mat (paramsChanged fresnel p)) (0, 0))"
        by (simp_all add: pc finish_def startPos_def)
      show ?thesis using arcT True fl pc by simp
    next
      case False
      have pc: "paramsChanged fresnel p
                  = finish p True False 0 (p CURVATURE)
                      (msmul (1 / p CURVATURE) (rotation (p ANGLE - pi / 2))) (1, 0)"
        by (rule paramsChanged_arc [OF arcT False])
      have fl: "arc (paramsChanged fresnel p)" "\<not> flat (paramsChanged fresnel p)"
               "t1 (paramsChanged fresnel p) = 0" "tdiff (paramsChanged fresnel p) = p CURVATURE"
               "mat (paramsChanged fresnel p)
                  = msmul (1 / p CURVATURE) (rotation (p ANGLE - pi / 2))"
               "startShift (paramsChanged fresnel p)
                  = vsub (p X, p Y) (mat_vec (mat (paramsChanged fresnel p)) (1, 0))"
        by (simp_all add: pc finish_def startPos_def)
      show ?thesis using arcT False fl pc by simp
    qed
  next
    case False
    then show ?thesis using paramsChanged_general_flags [of p fresnel] by simp
  qed
  have ieee_layer:
    "(arc_ieee (paramsChanged_ieee rnd fx q) \<longleftrightarrow> xless (xabs (q DCURVATURE)) (Fin lit_1e_12)) \<and>
     (flat_ieee (paramsChanged_ieee rnd fx q) \<longleftrightarrow>
        xless (xabs (q DCURVATURE)) (Fin lit_1e_12) \<and> xless (xabs (q CURVATURE)) (Fin lit_1e_6)) \<and>
     (arc_ieee (paramsChanged_ieee rnd fx q) \<longrightarrow> t1_ieee (paramsChanged_ieee rnd fx q) = Fin 0) \<and>
     (flat_ieee (paramsChanged_ieee rnd fx q) \<longrightarrow>
        tdiff_ieee (paramsChanged_ieee rnd fx q) = Fin 1 \<and>
        mat_ieee (paramsChanged_ieee rnd fx q)
          = ((xcos rnd (q ANGLE), xneg (xsin rnd (q ANGLE))),
             (xsin rnd (q ANGLE), xcos rnd (q ANGLE))) \<and>
        startcs_ieee fx (paramsChanged_ieee rnd fx q) = (Fin 0, Fin 0)) \<and>
     (arc_ieee (paramsChanged_ieee rnd fx q) \<and> \<not> flat_ieee (paramsChanged_ieee rnd fx q) \<longrightarrow>
        tdiff_ieee (paramsChanged_ieee rnd fx q) = q CURVATURE \<and>
        mat_ieee (paramsChanged_ieee rnd fx q)
          = ((xdiv rnd (xcos rnd (xsub rnd (q ANGLE) (Fin (rnd (pi / 2))))) (q CURVATURE),
              xneg (xdiv rnd (xsin rnd (xsub rnd (q ANGLE) (Fin (rnd (pi / 2))))) (q CURVATURE))),
             (xdiv rnd (xsin rnd (xsub rnd (q ANGLE) (Fin (rnd (pi / 2))))) (q CURVATURE),
              xdiv rnd (xcos rnd (xsub rnd (q ANGLE) (Fin (rnd (pi / 2))))) (q CURVATURE))) \<and>
        startcs_ieee fx (paramsChanged_ieee rnd fx q) = (Fin 1, Fin 0))"
  proof (cases "xless (xabs (q DCURVATURE)) (Fin lit_1e_12)")
    case arcT: True
    show ?thesis
    proof (cases "xless (xabs (q CURVATURE)) (Fin lit_1e_6)")
      case True
      show ?thesis
        using arcT True
        by (simp add: paramsChanged_ieee_flat [OF arcT True] finish_ieee_def startcs_ieee_def)
    next
      case False
      show ?thesis
        using arcT False
        by (simp add: paramsChanged_ieee_arc [OF arcT False] finish_ieee_def startcs_ieee_def)
    qed
  next
    case False
    then show ?thesis using paramsChanged_ieee_general_flags [of q rnd fx] by simp
  qed
  from exact_layer ieee_layer show ?thesis by (intro conjI) blast+
qed

theorem regime_classifier_witness:
  "flat (paramsChanged fresnel0 (\<lambda>i. 0)) \<and>
   tdiff (paramsChanged fresnel0 (\<lambda>i. 0)) = 1 \<and>
   mat (paramsChanged fresnel0 (\<lambda>i. 0)) = rotation 0 \<and>
   arc (paramsChanged fresnel0 ((\<lambda>i. 0)(CURVATURE := 2))) \<and>
   \<not> flat (paramsChanged fresnel0 ((\<lambda>i. 0)(CURVATURE := 2))) \<and>
   t1 (paramsChanged fresnel0 ((\<lambda>i. 0)(CURVATURE := 2))) = 0 \<and>
   tdiff (paramsChanged fresnel0 ((\<lambda>i. 0)(CURVATURE := 2))) = 2 \<and>
   mat (paramsChanged fresnel0 ((\<lambda>i. 0)(CURVATURE := 2)))
     = msmul (1 / 2) (rotation (0 - pi / 2)) \<and>
   flat_ieee (paramsChanged_ieee round53 fresnel0_ieee (\<lambda>i. Fin 0)) \<and>
   tdiff_ieee (paramsChanged_ieee round53 fresnel0_ieee (\<lambda>i. Fin 0)) = Fin 1 \<and>
   arc_ieee (paramsChanged_ieee round53 fresnel0_ieee ((\<lambda>i. Fin 0)(CURVATURE := Fin 2))) \<and>
   \<not> flat_ieee (paramsChanged_ieee round53 fresnel0_ieee ((\<lambda>i. Fin 0)(CURVATURE := Fin 2))) \<and>
   t1_ieee (paramsChanged_ieee round53 fresnel0_ieee ((\<lambda>i. Fin 0)(CURVATURE := Fin 2))) = Fin 0 \<and>
   tdiff_ieee (paramsChanged_ieee round53 fresnel0_ieee ((\<lambda>i. Fin 0)(CURVATURE := Fin 2))) = Fin 2"
  using regime_classifier [of fresnel0 "\<lambda>i. 0" round53 fresnel0_ieee "\<lambda>i. Fin 0"]
        regime_classifier [of fresnel0 "(\<lambda>i. 0)(CURVATURE := 2)" round53 fresnel0_ieee
                              "(\<lambda>i. Fin 0)(CURVATURE := Fin 2)"]
  by (simp add: lit_1e_6_def)

subsection \<open>Evaluation\<close>

lemma pos_eq:
  "pos fresnel c s = vadd (startShift c) (mat_vec (mat c)
       (if flat c then (t1 c + s * tdiff c, 0)
        else if arc c then (cos (t1 c + s * tdiff c), sin (t1 c + s * tdiff c))
        else fresnel_cs fresnel (t1 c + s * tdiff c)))"
  by (simp add: pos_def eval_def Let_def)

lemma vadd_vsub_cancel: "vadd (vsub u v) v = u"
  by (simp add: vadd_def vsub_def)

lemma pos_zero_start:
  "pos fresnel (paramsChanged fresnel p) 0 = (p X, p Y)"
proof (cases "\<bar>p DCURVATURE\<bar> < lit_1e_12")
  case arcT: True
  show ?thesis
  proof (cases "\<bar>p CURVATURE\<bar> < lit_1e_6")
    case True
    show ?thesis unfolding paramsChanged_flat [OF arcT True]
      by (simp add: pos_eq finish_def startPos_def vadd_vsub_cancel)
  next
    case False
    show ?thesis unfolding paramsChanged_arc [OF arcT False]
      by (simp add: pos_eq finish_def startPos_def vadd_vsub_cancel)
  qed
next
  case False
  then obtain t d m where
    pc: "paramsChanged fresnel p = finish p False False t d m (fresnel_cs fresnel t)"
    by (simp add: paramsChanged_def Let_def)
  show ?thesis unfolding pc
    by (simp add: pos_eq finish_def startPos_def vadd_vsub_cancel)
qed

text \<open>
  C2. For every arc length and every segment, whatever its cached flags are, the tangent
  is (cos theta, sin theta) and the heading angle is theta, with
  theta = start angle + s (curvature + 0.5 s slope); the second derivative is the
  instantaneous curvature times (- sin theta, cos theta) and the scalar curvature is
  curvature + s slope. None of the four reads the regime flags: replacing the flags by
  any others leaves the four results unchanged.
\<close>

theorem tangent_and_angle_closed_form:
  "der fresnel c s
     = (cos (params c ANGLE + s * (params c CURVATURE + 0.5 * s * params c DCURVATURE)),
        sin (params c ANGLE + s * (params c CURVATURE + 0.5 * s * params c DCURVATURE))) \<and>
   angle c s = params c ANGLE + s * (params c CURVATURE + 0.5 * s * params c DCURVATURE) \<and>
   der2 fresnel c s
     = smul (params c CURVATURE + s * params c DCURVATURE)
         (- sin (params c ANGLE + s * (params c CURVATURE + 0.5 * s * params c DCURVATURE)),
          cos (params c ANGLE + s * (params c CURVATURE + 0.5 * s * params c DCURVATURE))) \<and>
   curvature c s = params c CURVATURE + s * params c DCURVATURE \<and>
   der fresnel (c\<lparr>arc := a, flat := f\<rparr>) s = der fresnel c s \<and>
   angle (c\<lparr>arc := a, flat := f\<rparr>) s = angle c s \<and>
   der2 fresnel (c\<lparr>arc := a, flat := f\<rparr>) s = der2 fresnel c s \<and>
   curvature (c\<lparr>arc := a, flat := f\<rparr>) s = curvature c s"
  by (simp add: der_def der2_def angle_def curvature_def eval_def Let_def)

subsection \<open>Re-parametrisation\<close>

text \<open>
  C5. For every segment and all \<open>sFrom\<close>, \<open>sTo\<close> (no condition on them is tested),
  \<open>trim\<close> rebuilds the cache from the parameter vector whose start position is the
  position at \<open>sFrom\<close>, whose angle is the heading angle at \<open>sFrom\<close> and whose curvature is
  the scalar curvature at \<open>sFrom\<close>, all three of the segment before the call, whose length
  is \<open>sTo - sFrom\<close> and whose slope is unchanged.
\<close>

theorem trim_parameters:
  "trim fresnel c sFrom sTo
     = paramsChanged fresnel
         (\<lambda>i. case i of
            X \<Rightarrow> fst (pos fresnel c sFrom)
          | Y \<Rightarrow> snd (pos fresnel c sFrom)
          | ANGLE \<Rightarrow> angle c sFrom
          | LENGTH \<Rightarrow> sTo - sFrom
          | CURVATURE \<Rightarrow> curvature c sFrom
          | DCURVATURE \<Rightarrow> params c DCURVATURE)"
proof -
  have "(params c)(ANGLE := angle c sFrom,
                   CURVATURE := curvature (c\<lparr>params := (params c)(ANGLE := angle c sFrom)\<rparr>) sFrom,
                   LENGTH := sTo - sFrom,
                   X := fst (pos fresnel c sFrom),
                   Y := snd (pos fresnel c sFrom))
        = (\<lambda>i. case i of
            X \<Rightarrow> fst (pos fresnel c sFrom)
          | Y \<Rightarrow> snd (pos fresnel c sFrom)
          | ANGLE \<Rightarrow> angle c sFrom
          | LENGTH \<Rightarrow> sTo - sFrom
          | CURVATURE \<Rightarrow> curvature c sFrom
          | DCURVATURE \<Rightarrow> params c DCURVATURE)"
    by (rule ext) (simp add: curvature_def split: Param.split)
  then show ?thesis by (simp add: trim_def Let_def)
qed

subsection \<open>The Jacobian\<close>

text \<open>
  C4. For every arc length the matrix of \<open>derivativeAt\<close> has the six parameters as its
  rows and two columns; its start-X row is (1, 0), its start-Y row is (0, 1), its
  start-angle row is (- dy, dx) for (dx, dy) = position at s minus the start position,
  and its length row is (0, 0), in every regime.
\<close>

theorem jacobian_fixed_rows:
  "derivativeAt fresnel c s X = (1, 0) \<and>
   derivativeAt fresnel c s Y = (0, 1) \<and>
   derivativeAt fresnel c s ANGLE
     = (- snd (vsub (pos fresnel c s) (params c X, params c Y)),
        fst (vsub (pos fresnel c s) (params c X, params c Y))) \<and>
   derivativeAt fresnel c s LENGTH = (0, 0) \<and>
   (UNIV :: Param set) = {X, Y, ANGLE, LENGTH, CURVATURE, DCURVATURE}"
proof -
  have u: "(UNIV :: Param set) = {X, Y, ANGLE, LENGTH, CURVATURE, DCURVATURE}"
    using Param.exhaust by auto
  show ?thesis
    by (simp add: u derivativeAt_def Let_def set0_def set1_def startPos_def)
qed

section \<open>Properties of the IEEE layer\<close>

subsection \<open>Agreement with the exact layer\<close>

text \<open>
  With the rounding that changes nothing, and a Fresnel evaluator that returns finite
  values at finite arguments, \<open>_paramsChanged\<close>, the position and \<open>isValid\<close> over
  doubles are those of the exact layer on every finite parameter vector, and the
  constructor called with finite arguments and a length other than 0 builds the exact
  segment of its parameters.
\<close>

lemma xsub_Fin [simp]: "xsub rnd (Fin x) (Fin y) = Fin (rnd (x - y))"
  by (simp add: xsub_def)

lemma exact_simp [simp]: "exact x = x"
  by (simp add: exact_def)

lemma mat_vec_ieee_exact:
  "mat_vec_ieee exact (fin_vec (fst m), fin_vec (snd m)) (fin_vec v) = fin_vec (mat_vec m v)"
  by (simp add: mat_vec_ieee_def fin_vec_def mat_vec_def)

lemma finish_ieee_exact:
  "finish_ieee exact (\<lambda>i. Fin (p i)) a f (Fin t) (Fin d) (fin_vec (fst m), fin_vec (snd m)) (fin_vec scs)
     = as_ieee (finish p a f t d m scs)"
  by (simp add: finish_ieee_def as_ieee_def finish_def mat_vec_ieee_exact startPos_def)
     (simp add: vsub_ieee_def fin_vec_def vsub_def)

lemma fin_vec_pair: "(Fin a, Fin b) = fin_vec (a, b)"
  by (simp add: fin_vec_def)

lemma paramsChanged_ieee_exact:
  assumes fx: "\<forall>t. fx (Fin t) = (Fin (fst (fresnel t)), Fin (snd (fresnel t)))"
  shows "paramsChanged_ieee exact fx (\<lambda>i. Fin (p i)) = as_ieee (paramsChanged fresnel p)"
proof -
  have fcs: "fresnel_cs_ieee fx (Fin t) = fin_vec (fresnel_cs fresnel t)" for t
    using fx by (simp add: fresnel_cs_ieee_def fresnel_cs_def fin_vec_def)
  show ?thesis
  proof (cases "\<bar>p DCURVATURE\<bar> < lit_1e_12")
    case arcT: True
    show ?thesis
    proof (cases "\<bar>p CURVATURE\<bar> < lit_1e_6")
      case True
      show ?thesis
        using arcT True
        by (simp add: paramsChanged_ieee_def paramsChanged_def Let_def
              finish_ieee_exact [symmetric] fin_vec_def)
    next
      case False
      then have "p CURVATURE \<noteq> 0" by auto
      then show ?thesis
        using arcT False
        by (simp add: paramsChanged_ieee_def paramsChanged_def Let_def
              finish_ieee_exact [symmetric] fin_vec_def)
    qed
  next
    case False
    then have d0: "p DCURVATURE \<noteq> 0" by auto
    show ?thesis
      using False d0
      by (simp add: paramsChanged_ieee_def paramsChanged_def Let_def
            finish_ieee_exact [symmetric] fin_vec_def fcs [unfolded fin_vec_def])
  qed
qed

lemma pos_ieee_exact:
  assumes fx: "\<forall>t. fx (Fin t) = (Fin (fst (fresnel t)), Fin (snd (fresnel t)))"
  shows "pos_ieee exact fx (as_ieee c) (Fin s) = fin_vec (pos fresnel c s)"
proof -
  have fcs: "fresnel_cs_ieee fx (Fin t) = fin_vec (fresnel_cs fresnel t)" for t
    using fx by (simp add: fresnel_cs_ieee_def fresnel_cs_def fin_vec_def)
  have mv: "mat_vec_ieee exact (mat_ieee (as_ieee c)) (fin_vec v) = fin_vec (mat_vec (mat c) v)" for v
    by (simp add: as_ieee_def mat_vec_ieee_exact)
  have va: "vadd_ieee exact (fin_vec u) (fin_vec v) = fin_vec (vadd u v)" for u v
    by (simp add: vadd_ieee_def fin_vec_def vadd_def)
  have e: "startShift_ieee (as_ieee c) = fin_vec (startShift c)" "flat_ieee (as_ieee c) = flat c"
     "arc_ieee (as_ieee c) = arc c" "t1_ieee (as_ieee c) = Fin (t1 c)" "tdiff_ieee (as_ieee c) = Fin (tdiff c)"
    by (simp_all add: as_ieee_def)
  show ?thesis
    by (simp add: pos_ieee_def eval_ieee_def Let_def pos_eq e fin_vec_pair fcs mv va)
qed

lemma isValid_ieee_embed: "isValid_ieee (as_ieee c) = isValid c"
  by (simp add: isValid_ieee_def isValid_def as_ieee_def)

lemma Clothoid_exact_finite:
  assumes fx: "\<forall>t. fx (Fin t) = (Fin (fst (fresnel t)), Fin (snd (fresnel t)))"
    and len: "len \<noteq> 0"
  shows "Clothoid exact fx (Fin x, Fin y) (Fin a) (Fin len) (Fin curv) (Fin endCurv)
     = as_ieee (paramsChanged fresnel
               (\<lambda>i. case i of
                  X \<Rightarrow> x | Y \<Rightarrow> y | ANGLE \<Rightarrow> toRange a | LENGTH \<Rightarrow> len
                | CURVATURE \<Rightarrow> curv | DCURVATURE \<Rightarrow> (endCurv - curv) / len))"
proof -
  have "(\<lambda>i. case i of
          X \<Rightarrow> fst (Fin x, Fin y)
        | Y \<Rightarrow> snd (Fin x, Fin y)
        | ANGLE \<Rightarrow> toRange_ieee (Fin a)
        | LENGTH \<Rightarrow> Fin len
        | CURVATURE \<Rightarrow> Fin curv
        | DCURVATURE \<Rightarrow> xdiv exact (xsub exact (Fin endCurv) (Fin curv)) (Fin len))
      = (\<lambda>i. Fin (case i of
                  X \<Rightarrow> x | Y \<Rightarrow> y | ANGLE \<Rightarrow> toRange a | LENGTH \<Rightarrow> len
                | CURVATURE \<Rightarrow> curv | DCURVATURE \<Rightarrow> (endCurv - curv) / len))"
    using len by (auto split: Param.split)
  then show ?thesis
    unfolding Clothoid_def by (simp only: paramsChanged_ieee_exact [OF fx])
qed

subsection \<open>Rounding to 53 bits at the values used below\<close>

lemma rne_int [simp]: "rne (of_int n) = n"
  by (simp add: rne_def)

lemma round53_eval:
  fixes k :: int
  assumes "2 powr (of_int k) \<le> \<bar>x\<bar>" "\<bar>x\<bar> < 2 powr (of_int k + 1)"
  shows "round53 x = of_int (rne (x / 2 powr (of_int k - 52))) * 2 powr (of_int k - 52)"
proof -
  have "0 < (2::real) powr (of_int k)" by simp
  with assms(1) have pos: "0 < \<bar>x\<bar>" by linarith
  then have "x \<noteq> 0" by simp
  moreover have "\<lfloor>log 2 \<bar>x\<bar>\<rfloor> = k"
    using assms pos by (subst floor_log_eq_powr_iff) simp_all
  ultimately show ?thesis by (simp add: round53_def Let_def)
qed

lemma round53_0 [simp]: "round53 0 = 0"
  by (simp add: round53_def)

lemma round53_1 [simp]: "round53 1 = 1"
proof -
  have "round53 1 = of_int (rne (1 / 2 powr (of_int 0 - 52))) * 2 powr (of_int 0 - 52)"
    by (rule round53_eval) simp_all
  also have "(1::real) / 2 powr (of_int 0 - 52) = of_int (2 ^ 52)"
    by (simp add: powr_minus field_simps)
  finally show ?thesis by (simp only: rne_int) (simp add: powr_minus)
qed

lemma round53_1024 [simp]: "round53 1024 = 1024"
proof -
  have "round53 1024 = of_int (rne (1024 / 2 powr (of_int 10 - 52))) * 2 powr (of_int 10 - 52)"
    by (rule round53_eval) simp_all
  also have "(1024::real) / 2 powr (of_int 10 - 52) = of_int (2 ^ 52)"
    by (simp add: powr_minus field_simps)
  finally show ?thesis by (simp only: rne_int) (simp add: powr_minus)
qed

lemma round53_absorb: "round53 (1 / 2 ^ 60 - 1024) = - 1024"
proof -
  let ?x = "(1::real) / 2 ^ 60 - 1024"
  have ax: "\<bar>?x\<bar> = 1024 - 1 / 2 ^ 60" by simp
  have "round53 ?x = of_int (rne (?x / 2 powr (of_int 9 - 52))) * 2 powr (of_int 9 - 52)"
    by (rule round53_eval) (simp_all only: ax, simp_all)
  moreover have q: "?x / 2 powr (of_int 9 - 52) = of_int (- (2 ^ 53)) + 1 / 2 ^ 17"
    by (simp add: powr_minus field_simps)
  moreover have "rne (of_int (- (2 ^ 53)) + 1 / 2 ^ 17) = - (2 ^ 53)"
  proof -
    have f: "\<lfloor>of_int (- (2 ^ 53)) + (1::real) / 2 ^ 17\<rfloor> = - (2 ^ 53)"
      by (rule floor_unique) simp_all
    show ?thesis unfolding rne_def Let_def f by simp
  qed
  ultimately show ?thesis by (simp add: powr_minus)
qed

subsection \<open>NaN\<close>

lemma xadd_NaN [simp]: "xadd rnd x NaN = NaN"
  by (cases x) simp_all

lemma xmul_NaN [simp]: "xmul rnd x NaN = NaN"
  by (cases x) simp_all

lemma xdiv_NaN [simp]: "xdiv rnd x NaN = NaN"
  by (cases x) simp_all

lemma xsub_NaN [simp]: "xsub rnd x NaN = NaN" "xsub rnd NaN y = NaN"
  by (simp_all add: xsub_def)

lemma xless_NaN [simp]: "xless x NaN = False"
  by (cases x) simp_all

lemma mat_vec_ieee_NaN:
  "mat_vec_ieee rnd ((NaN, NaN), (NaN, NaN)) v = (NaN, NaN)"
  by (simp add: mat_vec_ieee_def)

text \<open>A NaN slope makes the whole cache NaN, and the position with it.\<close>

lemma paramsChanged_ieee_NaN_slope:
  assumes "p DCURVATURE = NaN"
  shows "paramsChanged_ieee rnd fresnel p
           = \<lparr>params_ieee = p, arc_ieee = False, flat_ieee = False, t1_ieee = NaN,
              tdiff_ieee = NaN, mat_ieee = ((NaN, NaN), (NaN, NaN)),
              startShift_ieee = (NaN, NaN)\<rparr>"
  using assms
  by (simp add: paramsChanged_ieee_def Let_def finish_ieee_def mat_vec_ieee_NaN vsub_ieee_def)

lemma pos_ieee_NaN_slope:
  assumes "p DCURVATURE = NaN"
  shows "pos_ieee rnd fresnel (paramsChanged_ieee rnd fresnel p) s = (NaN, NaN)"
  using assms
  by (simp add: paramsChanged_ieee_NaN_slope [of p rnd fresnel] pos_ieee_def eval_ieee_def Let_def
        mat_vec_ieee_NaN vadd_ieee_def)

lemma xdiv_zero_not_finite: "\<not> is_finite (xdiv rnd x (Fin 0))"
  by (cases x) (simp_all add: inf_of_def)

lemma params_paramsChanged_ieee [simp]: "params_ieee (paramsChanged_ieee rnd fresnel p) = p"
  by (simp add: paramsChanged_ieee_def Let_def finish_ieee_def)

subsection \<open>The constructor at length 0\<close>

text \<open>
  C9. For every call of the constructor with length 0, whatever the other arguments and
  the rounding are, the slope entry of the segment it returns is the quotient of the
  curvature difference by zero, which is an infinity or NaN: nothing tests the length
  before the division. The length entry of that segment is 0 and \<open>isValid\<close> of that
  segment is true.
\<close>

theorem constructor_divides_by_zero:
  "params_ieee (Clothoid rnd fresnel start startAngle (Fin 0) curv endCurv) DCURVATURE
     = xdiv rnd (xsub rnd endCurv curv) (Fin 0) \<and>
   \<not> is_finite (params_ieee (Clothoid rnd fresnel start startAngle (Fin 0) curv endCurv) DCURVATURE) \<and>
   params_ieee (Clothoid rnd fresnel start startAngle (Fin 0) curv endCurv) LENGTH = Fin 0 \<and>
   isValid_ieee (Clothoid rnd fresnel start startAngle (Fin 0) curv endCurv)"
  by (simp add: Clothoid_def isValid_ieee_def xdiv_zero_not_finite)

subsection \<open>The position at arc length 0\<close>

lemma startShift_ieee_startcs:
  "startShift_ieee (paramsChanged_ieee rnd fresnel p)
     = vsub_ieee rnd (p X, p Y)
         (mat_vec_ieee rnd (mat_ieee (paramsChanged_ieee rnd fresnel p))
            (startcs_ieee fresnel (paramsChanged_ieee rnd fresnel p)))"
  by (simp add: paramsChanged_ieee_def Let_def finish_ieee_def startcs_ieee_def)

lemma pos_ieee_zero_startcs:
  "pos_ieee exact fresnel (paramsChanged_ieee exact fresnel (\<lambda>i. Fin (p i))) (Fin 0)
     = vadd_ieee exact (startShift_ieee (paramsChanged_ieee exact fresnel (\<lambda>i. Fin (p i))))
         (mat_vec_ieee exact (mat_ieee (paramsChanged_ieee exact fresnel (\<lambda>i. Fin (p i))))
            (startcs_ieee fresnel (paramsChanged_ieee exact fresnel (\<lambda>i. Fin (p i)))))"
proof -
  have g: "\<not> \<bar>p DCURVATURE\<bar> < lit_1e_12 \<Longrightarrow>
           \<exists>r. xsqrt exact (xabs (xdiv exact (Fin 1) (xmul exact (Fin (exact pi)) (Fin (p DCURVATURE))))) = Fin r"
    by auto
  show ?thesis
  proof (cases "\<bar>p DCURVATURE\<bar> < lit_1e_12")
    case True
    then show ?thesis
      by (simp add: paramsChanged_ieee_def Let_def finish_ieee_def startcs_ieee_def
            pos_ieee_def eval_ieee_def)
  next
    case False
    then have "p DCURVATURE \<noteq> 0" by auto
    with False show ?thesis
      by (simp add: paramsChanged_ieee_def Let_def finish_ieee_def startcs_ieee_def
            pos_ieee_def eval_ieee_def)
  qed
qed

text \<open>
  C1, as the code has it. For every parameter vector of finite numbers, with the
  arithmetic carried out exactly and a Fresnel evaluator that is finite at finite
  arguments, in each of the three regimes: the cached translation is the start position
  minus the image of the regime's canonical start point under the cached matrix, the
  position at arc length 0 is the translation plus the image of that same point, and the
  position at arc length 0 is the stored start position.
\<close>

theorem position_at_zero_is_start:
  assumes "\<forall>t. fresnel (Fin t) = (Fin (fst (fr t)), Fin (snd (fr t)))"
  shows "startShift_ieee (paramsChanged_ieee exact fresnel (\<lambda>i. Fin (p i)))
           = vsub_ieee exact (Fin (p X), Fin (p Y))
               (mat_vec_ieee exact (mat_ieee (paramsChanged_ieee exact fresnel (\<lambda>i. Fin (p i))))
                  (startcs_ieee fresnel (paramsChanged_ieee exact fresnel (\<lambda>i. Fin (p i))))) \<and>
         pos_ieee exact fresnel (paramsChanged_ieee exact fresnel (\<lambda>i. Fin (p i))) (Fin 0)
           = vadd_ieee exact (startShift_ieee (paramsChanged_ieee exact fresnel (\<lambda>i. Fin (p i))))
               (mat_vec_ieee exact (mat_ieee (paramsChanged_ieee exact fresnel (\<lambda>i. Fin (p i))))
                  (startcs_ieee fresnel (paramsChanged_ieee exact fresnel (\<lambda>i. Fin (p i))))) \<and>
         pos_ieee exact fresnel (paramsChanged_ieee exact fresnel (\<lambda>i. Fin (p i))) (Fin 0)
           = (Fin (p X), Fin (p Y))"
proof (intro conjI)
  show "pos_ieee exact fresnel (paramsChanged_ieee exact fresnel (\<lambda>i. Fin (p i))) (Fin 0)
          = (Fin (p X), Fin (p Y))"
    unfolding paramsChanged_ieee_exact [OF assms] pos_ieee_exact [OF assms]
    by (simp add: pos_zero_start fin_vec_def)
qed (rule startShift_ieee_startcs, rule pos_ieee_zero_startcs)

theorem position_at_zero_is_start_witness:
  "(\<forall>t. fresnel0_ieee (Fin t) = (Fin (fst (fresnel0 t)), Fin (snd (fresnel0 t)))) \<and>
   pos_ieee exact fresnel0_ieee
     (paramsChanged_ieee exact fresnel0_ieee
        (\<lambda>i. Fin (((\<lambda>i. 0)(X := 1, Y := 2, DCURVATURE := 1)) i))) (Fin 0)
     = (Fin (((\<lambda>i. 0)(X := 1, Y := 2, DCURVATURE := 1)) X),
        Fin (((\<lambda>i. 0)(X := 1, Y := 2, DCURVATURE := 1)) Y))"
proof -
  have h: "\<forall>t. fresnel0_ieee (Fin t) = (Fin (fst (fresnel0 t)), Fin (snd (fresnel0 t)))"
    by (simp add: fresnel0_ieee_def fresnel0_def)
  show ?thesis
    using h position_at_zero_is_start [OF h, of "(\<lambda>i. 0)(X := 1, Y := 2, DCURVATURE := 1)"]
    by blast
qed

lemma degenerate_params:
  "params_ieee degenerate X = Fin 1" "params_ieee degenerate Y = Fin 2"
  "params_ieee degenerate LENGTH = Fin 0" "params_ieee degenerate DCURVATURE = NaN"
  by (simp_all add: degenerate_def Clothoid_def)

text \<open>
  C1 as stated fails for a parameter vector that is not finite, and for a finite one
  once the operations round. \<open>degenerate\<close>, which the constructor builds and \<open>isValid\<close>
  accepts, has a NaN slope; its position at 0 is (NaN, NaN), not its start (1, 2). For
  \<open>absorbing\<close>, with every operation rounded to 53 bits, the translation
  \<open>2^-60 - 1024\<close> rounds to \<open>- 1024\<close> and the position at 0 is (0, 0), not the start
  \<open>(2^-60, 0)\<close>.
\<close>

theorem position_at_zero_counterexample:
  "params_ieee degenerate X = Fin 1 \<and> params_ieee degenerate Y = Fin 2 \<and>
   params_ieee degenerate DCURVATURE = NaN \<and> isValid_ieee degenerate \<and>
   pos_ieee round53 fresnel0_ieee
     (paramsChanged_ieee round53 fresnel0_ieee (params_ieee degenerate)) (Fin 0) = (NaN, NaN) \<and>
   pos_ieee round53 fresnel0_ieee degenerate (Fin 0)
     \<noteq> (params_ieee degenerate X, params_ieee degenerate Y) \<and>
   absorbing X = Fin (1 / 2 ^ 60) \<and> absorbing Y = Fin 0 \<and>
   pos_ieee round53 fresnel0_ieee
     (paramsChanged_ieee round53 fresnel0_ieee absorbing) (Fin 0) = (Fin 0, Fin 0) \<and>
   pos_ieee round53 fresnel0_ieee
     (paramsChanged_ieee round53 fresnel0_ieee absorbing) (Fin 0) \<noteq> (absorbing X, absorbing Y)"
proof -
  have v: "isValid_ieee degenerate"
    by (simp add: isValid_ieee_def degenerate_params)
  have d: "degenerate = paramsChanged_ieee round53 fresnel0_ieee (params_ieee degenerate)"
    by (simp add: degenerate_def Clothoid_def)
  have n: "pos_ieee round53 fresnel0_ieee
             (paramsChanged_ieee round53 fresnel0_ieee (params_ieee degenerate)) (Fin 0) = (NaN, NaN)"
    by (rule pos_ieee_NaN_slope) (rule degenerate_params)
  have n': "pos_ieee round53 fresnel0_ieee degenerate (Fin 0) = (NaN, NaN)"
    using n d by simp
  have lit: "\<bar>0\<bar> < lit_1e_12" "\<not> \<bar>1 / 1024\<bar> < lit_1e_6"
    by (simp_all add: lit_1e_6_def)
  have ss: "xsub round53 (Fin (1 / 2 ^ 60)) (Fin 1024) = Fin (- 1024)"
    by (simp only: xsub_Fin round53_absorb)
  have ss': "xsub round53 (Fin (1 / 1152921504606846976)) (Fin 1024) = Fin (- 1024)"
    using ss by simp
  have a0: "xsub round53 (Fin h) (Fin h) = Fin 0" for h
    by simp
  have cs: "xdiv round53 (xcos round53 (Fin 0)) (Fin (1 / 1024)) = Fin 1024"
           "xdiv round53 (xsin round53 (Fin 0)) (Fin (1 / 1024)) = Fin 0"
    by simp_all
  have pc: "paramsChanged_ieee round53 fresnel0_ieee absorbing
              = \<lparr>params_ieee = absorbing, arc_ieee = True, flat_ieee = False, t1_ieee = Fin 0,
                 tdiff_ieee = Fin (1 / 1024), mat_ieee = ((Fin 1024, Fin 0), (Fin 0, Fin 1024)),
                 startShift_ieee = (Fin (- 1024), Fin 0)\<rparr>"
    using lit
    by (simp add: paramsChanged_ieee_def Let_def finish_ieee_def absorbing_def
          mat_vec_ieee_def vsub_ieee_def a0 cs ss ss' del: xsub_Fin)
  have a: "pos_ieee round53 fresnel0_ieee
             (paramsChanged_ieee round53 fresnel0_ieee absorbing) (Fin 0) = (Fin 0, Fin 0)"
    unfolding pc by (simp add: pos_ieee_def eval_ieee_def Let_def mat_vec_ieee_def vadd_ieee_def)
  show ?thesis
    using v n n' a by (simp add: degenerate_params) (simp add: absorbing_def)
qed

section \<open>Properties of the re-parametrised segments\<close>

subsection \<open>The stored angle\<close>

lemma toRange_range: "- pi \<le> toRange a \<and> toRange a < pi"
proof -
  define k where "k = \<lfloor>(a + pi) / (2 * pi)\<rfloor>"
  have "of_int k \<le> (a + pi) / (2 * pi)" "(a + pi) / (2 * pi) < of_int k + 1"
    unfolding k_def by linarith+
  then have "of_int k * (2 * pi) \<le> a + pi" "a + pi < (of_int k + 1) * (2 * pi)"
    by (simp_all add: pos_le_divide_eq pos_divide_less_eq)
  then show ?thesis
    unfolding toRange_def k_def [symmetric] by (simp add: algebra_simps)
qed

lemma toRange_0: "toRange 0 = 0"
  by (simp add: toRange_def)

lemma flip_params:
  "flip fresnel c
     = paramsChanged fresnel
         (\<lambda>i. case i of
            X \<Rightarrow> fst (pos fresnel c (params c LENGTH))
          | Y \<Rightarrow> snd (pos fresnel c (params c LENGTH))
          | ANGLE \<Rightarrow> pi + angle c (params c LENGTH)
          | LENGTH \<Rightarrow> params c LENGTH
          | CURVATURE \<Rightarrow> - curvature c (params c LENGTH)
          | DCURVATURE \<Rightarrow> params c DCURVATURE)"
proof -
  have "(params c)(ANGLE := pi + endAngle c,
                   CURVATURE := - endCurvature (c\<lparr>params := (params c)(ANGLE := pi + endAngle c)\<rparr>),
                   X := fst (endPos fresnel c),
                   Y := snd (endPos fresnel c))
        = (\<lambda>i. case i of
            X \<Rightarrow> fst (pos fresnel c (params c LENGTH))
          | Y \<Rightarrow> snd (pos fresnel c (params c LENGTH))
          | ANGLE \<Rightarrow> pi + angle c (params c LENGTH)
          | LENGTH \<Rightarrow> params c LENGTH
          | CURVATURE \<Rightarrow> - curvature c (params c LENGTH)
          | DCURVATURE \<Rightarrow> params c DCURVATURE)"
    by (rule ext) (simp add: endCurvature_def endAngle_def endPos_def curvature_def split: Param.split)
  then show ?thesis by (simp add: flip_def Let_def)
qed

lemma constructor_stores_normalised_angle:
  "params_ieee (Clothoid rnd fresnel start startAngle len curv endCurv) ANGLE
     = toRange_ieee startAngle \<and>
   params_ieee (Clothoid rnd fresnel start (Fin a) len curv endCurv) ANGLE = Fin (toRange a) \<and>
   in_canonical_range (toRange a)"
  using toRange_range [of a] by (simp add: Clothoid_def in_canonical_range_def)

lemma fresnel0_ieee_finite:
  "\<forall>t. fresnel0_ieee (Fin t) = (Fin (fst (fresnel0 t)), Fin (snd (fresnel0 t)))"
  by (simp add: fresnel0_ieee_def fresnel0_def)

lemma unit_arc_constructed:
  "Clothoid exact fresnel0_ieee (Fin 0, Fin 0) (Fin 0) (Fin 1) (Fin 1) (Fin 1) = as_ieee unit_arc"
  unfolding unit_arc_def
  by (subst Clothoid_exact_finite [OF fresnel0_ieee_finite]) (simp_all add: toRange_0)

lemma shallow_constructed:
  "Clothoid exact fresnel0_ieee (Fin 0, Fin 0) (Fin 0) (Fin 2000000) (Fin (1 / 2000000))
     (Fin (1 / 2000000)) = as_ieee shallow"
  unfolding shallow_def
  by (subst Clothoid_exact_finite [OF fresnel0_ieee_finite]) (simp_all add: toRange_0)

text \<open>
  C7. The stored start angle is not kept in the canonical range. The constructor stores
  the normalised angle, for every call (\<open>constructor_stores_normalised_angle\<close>);
  \<open>trim\<close> and \<open>flip\<close> store the angle they compute without normalising it. The
  constructor builds \<open>unit_arc\<close> with its angle in range; trimmed to the arc lengths from
  10 to 11 its stored angle is 10, beyond a full turn, and flipped its stored angle is
  \<open>pi + 1\<close>. Flipped twice its stored angle is a full turn more than the constructed
  one, so the two cannot both lie in a range that holds one representative of each
  direction, whichever range that is.
\<close>

theorem stored_angle_after_trim_and_flip:
  "Clothoid exact fresnel0_ieee (Fin 0, Fin 0) (Fin 0) (Fin 1) (Fin 1) (Fin 1) = as_ieee unit_arc \<and>
   params unit_arc ANGLE = toRange 0 \<and>
   in_canonical_range (params unit_arc ANGLE) \<and>
   params (trim fresnel0 unit_arc 10 11) ANGLE = 10 \<and>
   2 * pi < params (trim fresnel0 unit_arc 10 11) ANGLE \<and>
   \<not> in_canonical_range (params (trim fresnel0 unit_arc 10 11) ANGLE) \<and>
   params (flip fresnel0 unit_arc) ANGLE = pi + 1 \<and>
   \<not> in_canonical_range (params (flip fresnel0 unit_arc) ANGLE) \<and>
   params (flip fresnel0 (flip fresnel0 unit_arc)) ANGLE = params unit_arc ANGLE + 2 * pi"
proof -
  have a0: "params unit_arc ANGLE = 0" by (simp add: unit_arc_def)
  have t: "params (trim fresnel0 unit_arc 10 11) ANGLE = 10"
    by (simp add: trim_def Let_def angle_def unit_arc_def)
  have f: "params (flip fresnel0 unit_arc) ANGLE = pi + 1"
    by (simp add: flip_params angle_def unit_arc_def)
  have ff: "params (flip fresnel0 (flip fresnel0 unit_arc)) ANGLE = 2 * pi"
    by (simp add: flip_params angle_def curvature_def unit_arc_def)
  have "pi < 10" "2 * pi < 10" using pi_less_4 by linarith+
  then show ?thesis using unit_arc_constructed a0 t f ff pi_gt_zero
    by (simp add: in_canonical_range_def toRange_0)
qed

subsection \<open>Position as start position plus displacement\<close>

lemma paramsChanged_general:
  "\<not> \<bar>p DCURVATURE\<bar> < lit_1e_12 \<Longrightarrow>
   paramsChanged fresnel p
     = finish p False False (p CURVATURE * gscale (p DCURVATURE))
         (p DCURVATURE * gscale (p DCURVATURE))
         (gmat (p ANGLE) (p CURVATURE) (p DCURVATURE))
         (fresnel_cs fresnel (p CURVATURE * gscale (p DCURVATURE)))"
  by (simp add: paramsChanged_def Let_def gmat_def gscale_def msmul_def smul_def
        rotation_def reflection_def)

lemma pos_offset: "pos fresnel (paramsChanged fresnel p) s = vadd (startPos p) (offset fresnel p s)"
  by (simp add: offset_def vadd_def vsub_def)

lemma offset_flat:
  "\<bar>p DCURVATURE\<bar> < lit_1e_12 \<Longrightarrow> \<bar>p CURVATURE\<bar> < lit_1e_6 \<Longrightarrow>
   offset fresnel p s = (s * cos (p ANGLE), s * sin (p ANGLE))"
  by (simp add: offset_def paramsChanged_flat pos_eq finish_def vadd_def vsub_def mat_vec_def
        rotation_def)

lemma offset_arc:
  assumes "\<bar>p DCURVATURE\<bar> < lit_1e_12" "\<not> \<bar>p CURVATURE\<bar> < lit_1e_6"
  shows "offset fresnel p s
     = ((sin (p ANGLE + p CURVATURE * s) - sin (p ANGLE)) / p CURVATURE,
        (cos (p ANGLE) - cos (p ANGLE + p CURVATURE * s)) / p CURVATURE)"
proof -
  have k: "p CURVATURE \<noteq> 0" using assms(2) by auto
  have r: "cos (p ANGLE - pi / 2) = sin (p ANGLE)" "sin (p ANGLE - pi / 2) = - cos (p ANGLE)"
    by (simp_all add: cos_diff sin_diff)
  show ?thesis
    using k
    by (simp add: offset_def paramsChanged_arc [OF assms] pos_eq finish_def vadd_def vsub_def
          mat_vec_def rotation_def msmul_def smul_def r sin_add cos_add mult.commute)
       (simp add: field_simps)
qed

lemma offset_general:
  "\<not> \<bar>p DCURVATURE\<bar> < lit_1e_12 \<Longrightarrow>
   offset fresnel p s
     = mat_vec (gmat (p ANGLE) (p CURVATURE) (p DCURVATURE))
         (vsub (fresnel_cs fresnel (p CURVATURE * gscale (p DCURVATURE)
                                    + s * (p DCURVATURE * gscale (p DCURVATURE))))
               (fresnel_cs fresnel (p CURVATURE * gscale (p DCURVATURE))))"
  by (simp add: offset_def paramsChanged_general pos_eq finish_def vadd_def vsub_def mat_vec_def
        algebra_simps)


lemma gscale_sq:
  assumes "d \<noteq> 0"
  shows "gscale d * gscale d * pi * \<bar>d\<bar> = 1"
proof -
  have "gscale d * gscale d = \<bar>1 / (pi * d)\<bar>"
    by (simp add: gscale_def)
  also have "\<dots> = 1 / (pi * \<bar>d\<bar>)"
    by (simp add: abs_mult)
  finally show ?thesis using assms by simp
qed

lemma gscale_pos: "d \<noteq> 0 \<Longrightarrow> 0 < gscale d"
  by (simp add: gscale_def)

lemma rotation_pi: "rotation (phi + pi) = msmul (- 1) (rotation phi)"
  by (simp add: rotation_def msmul_def smul_def)

lemma reflection_pi: "reflection (phi + pi) = msmul (- 1) (reflection phi)"
  by (simp add: reflection_def msmul_def smul_def)

lemma rotation_2pi: "rotation (phi + 2 * pi) = rotation phi"
  by (simp add: rotation_def)

lemma reflection_2pi: "reflection (phi + 2 * pi) = reflection phi"
  by (simp add: reflection_def)

lemma gmat_2pi: "gmat (a + 2 * pi) k d = gmat a k d"
proof -
  have "a + 2 * pi - x = a - x + 2 * pi" "a + 2 * pi + x = a + x + 2 * pi" for x
    by simp_all
  then show ?thesis
    by (simp only: gmat_def rotation_2pi reflection_2pi)
qed

text \<open>The matrix of the reversed segment is the negated matrix.\<close>

lemma gmat_reversed:
  assumes "d \<noteq> 0"
  shows "gmat (pi + (a + L * (k + 0.5 * L * d))) (- (k + L * d)) d = msmul (- 1) (gmat a k d)"
proof -
  define sc where "sc = gscale d"
  have sq: "sc * sc * pi * \<bar>d\<bar> = 1" using gscale_sq [OF assms] by (simp add: sc_def)
  have scpos: "0 < sc" using gscale_pos [OF assms] by (simp add: sc_def)
  have quad: "(- (k + L * d) * sc) * (- (k + L * d) * sc) * (pi / 2)
                = (k * sc) * (k * sc) * (pi / 2) + (sc * sc * pi * d) * (L * (k + 0.5 * L * d))"
    by (simp add: algebra_simps)
  show ?thesis
  proof (cases "0 < d")
    case True
    then have one: "sc * sc * pi * d = 1" using sq by simp
    have ang: "pi + (a + L * (k + 0.5 * L * d))
                 - (- (k + L * d) * sc) * (- (k + L * d) * sc) * (pi / 2)
               = (a - (k * sc) * (k * sc) * (pi / 2)) + pi"
      unfolding quad one by simp
    have "0 < d * sc" using True scpos by simp
    then show ?thesis
      unfolding gmat_def sc_def [symmetric]
      by (simp only: if_True ang rotation_pi) (simp add: msmul_def smul_def)
  next
    case False
    then have neg: "d < 0" using assms by simp
    then have one: "sc * sc * pi * d = - 1" using sq by simp
    have ang: "pi + (a + L * (k + 0.5 * L * d))
                 + (- (k + L * d) * sc) * (- (k + L * d) * sc) * (pi / 2)
               = (a + (k * sc) * (k * sc) * (pi / 2)) + pi"
      unfolding quad one by simp
    have "\<not> 0 < d * sc" using neg scpos by (simp add: mult_less_0_iff not_less mult_nonpos_nonneg)
    then show ?thesis
      unfolding gmat_def sc_def [symmetric]
      by (simp only: if_False ang reflection_pi) (simp add: msmul_def smul_def)
  qed
qed


lemma offset_2pi:
  assumes "q ANGLE = p ANGLE + 2 * pi" "q CURVATURE = p CURVATURE" "q DCURVATURE = p DCURVATURE"
  shows "offset fresnel q s = offset fresnel p s"
proof (cases "\<bar>p DCURVATURE\<bar> < lit_1e_12")
  case arcT: True
  have sh: "p ANGLE + 2 * pi + x = p ANGLE + x + 2 * pi" for x by simp
  show ?thesis
  proof (cases "\<bar>p CURVATURE\<bar> < lit_1e_6")
    case True
    show ?thesis using arcT True assms by (simp add: offset_flat)
  next
    case False
    show ?thesis using arcT False assms by (simp add: offset_arc sh)
  qed
next
  case False
  then show ?thesis using assms by (simp add: offset_general gmat_2pi)
qed

lemma mat_vec_neg: "mat_vec (msmul (- 1) m) v = smul (- 1) (mat_vec m v)"
  by (simp add: mat_vec_def msmul_def smul_def)

lemma offset_reversed:
  assumes odd: "\<forall>t. fresnel (- t) = (- fst (fresnel t), - snd (fresnel t))"
    and regime: "\<not> \<bar>p DCURVATURE\<bar> < lit_1e_12 \<or>
                 (p DCURVATURE = 0 \<and> (p CURVATURE = 0 \<or> \<not> \<bar>p CURVATURE\<bar> < lit_1e_6))"
    and qa: "q ANGLE = pi + (p ANGLE + L * (p CURVATURE + 0.5 * L * p DCURVATURE))"
    and qk: "q CURVATURE = - (p CURVATURE + L * p DCURVATURE)"
    and qd: "q DCURVATURE = p DCURVATURE"
  shows "offset fresnel q L = smul (- 1) (offset fresnel p L)"
proof (cases "\<bar>p DCURVATURE\<bar> < lit_1e_12")
  case False
  then have d0: "p DCURVATURE \<noteq> 0" by auto
  define sc where "sc = gscale (p DCURVATURE)"
  have fo: "fresnel_cs fresnel (- x) = smul (- 1) (fresnel_cs fresnel x)" for x
    using odd by (simp add: fresnel_cs_def smul_def)
  have e1: "q CURVATURE * sc + L * (p DCURVATURE * sc) = - (p CURVATURE * sc)"
    by (simp add: qk algebra_simps)
  have e2: "q CURVATURE * sc = - (p CURVATURE * sc + L * (p DCURVATURE * sc))"
    by (simp add: qk algebra_simps)
  have "offset fresnel q L
          = mat_vec (gmat (q ANGLE) (q CURVATURE) (p DCURVATURE))
              (vsub (fresnel_cs fresnel (q CURVATURE * sc + L * (p DCURVATURE * sc)))
                    (fresnel_cs fresnel (q CURVATURE * sc)))"
    using False by (simp add: offset_general qd sc_def)
  also have "\<dots> = mat_vec (msmul (- 1) (gmat (p ANGLE) (p CURVATURE) (p DCURVATURE)))
              (vsub (fresnel_cs fresnel (p CURVATURE * sc + L * (p DCURVATURE * sc)))
                    (fresnel_cs fresnel (p CURVATURE * sc)))"
  proof -
    have a1: "fresnel_cs fresnel (q CURVATURE * sc + L * (p DCURVATURE * sc))
                = smul (- 1) (fresnel_cs fresnel (p CURVATURE * sc))"
      by (simp only: e1 fo)
    have a2: "fresnel_cs fresnel (q CURVATURE * sc)
                = smul (- 1) (fresnel_cs fresnel (p CURVATURE * sc + L * (p DCURVATURE * sc)))"
      by (simp only: e2 fo)
    have g: "gmat (q ANGLE) (q CURVATURE) (p DCURVATURE)
               = msmul (- 1) (gmat (p ANGLE) (p CURVATURE) (p DCURVATURE))"
      by (simp only: qa qk gmat_reversed [OF d0])
    show ?thesis unfolding a1 a2 g by (simp add: vsub_def smul_def)
  qed
  also have "\<dots> = smul (- 1) (offset fresnel p L)"
    using False by (simp add: offset_general sc_def mat_vec_neg)
  finally show ?thesis .
next
  case arcT: True
  with regime have d: "p DCURVATURE = 0"
    and k: "p CURVATURE = 0 \<or> \<not> \<bar>p CURVATURE\<bar> < lit_1e_6" by auto
  from k show ?thesis
  proof
    assume k0: "p CURVATURE = 0"
    have "offset fresnel q L = (L * cos (q ANGLE), L * sin (q ANGLE))"
      by (rule offset_flat) (simp_all add: qd qk d k0)
    moreover have "offset fresnel p L = (L * cos (p ANGLE), L * sin (p ANGLE))"
      by (rule offset_flat) (simp_all add: d k0)
    ultimately show ?thesis by (simp add: qa d k0 smul_def)
  next
    assume kk: "\<not> \<bar>p CURVATURE\<bar> < lit_1e_6"
    then have kn: "p CURVATURE \<noteq> 0" by auto
    have qkk: "\<not> \<bar>q CURVATURE\<bar> < lit_1e_6" using kk by (simp add: qk d)
    have qdd: "\<bar>q DCURVATURE\<bar> < lit_1e_12" by (simp add: qd d)
    have ang: "q ANGLE + q CURVATURE * L = p ANGLE + pi"
      by (simp add: qa qk d algebra_simps)
    have qa': "q ANGLE = (p ANGLE + p CURVATURE * L) + pi"
      by (simp add: qa d algebra_simps)
    show ?thesis
      unfolding offset_arc [OF qdd qkk] offset_arc [OF arcT kk] ang
      unfolding qa' qk d using kn
      by (simp add: smul_def field_simps)
  qed
qed

lemma pos_flat:
  "\<bar>p DCURVATURE\<bar> < lit_1e_12 \<Longrightarrow> \<bar>p CURVATURE\<bar> < lit_1e_6 \<Longrightarrow>
   pos fresnel (paramsChanged fresnel p) s = (p X + s * cos (p ANGLE), p Y + s * sin (p ANGLE))"
  by (simp add: pos_offset offset_flat vadd_def startPos_def)

subsection \<open>Flipping twice\<close>

text \<open>
  C6, as the code has it. Let the Fresnel evaluator be odd, and let the parameters be in
  the general regime, or have slope exactly 0 and a curvature that is exactly 0 or not
  below the flat threshold. Then the segment flipped twice has the same position as the
  original at every arc length.
\<close>

theorem flip_twice_same_position:
  assumes odd: "\<forall>t. fresnel (- t) = (- fst (fresnel t), - snd (fresnel t))"
    and regime: "\<not> \<bar>p DCURVATURE\<bar> < lit_1e_12 \<or>
                 (p DCURVATURE = 0 \<and> (p CURVATURE = 0 \<or> \<not> \<bar>p CURVATURE\<bar> < lit_1e_6))"
  shows "pos fresnel (flip fresnel (flip fresnel (paramsChanged fresnel p))) s
           = pos fresnel (paramsChanged fresnel p) s"
proof -
  define L where "L = p LENGTH"
  define q where "q = (\<lambda>i. case i of
            X \<Rightarrow> fst (pos fresnel (paramsChanged fresnel p) L)
          | Y \<Rightarrow> snd (pos fresnel (paramsChanged fresnel p) L)
          | ANGLE \<Rightarrow> pi + angle (paramsChanged fresnel p) L
          | LENGTH \<Rightarrow> L
          | CURVATURE \<Rightarrow> - curvature (paramsChanged fresnel p) L
          | DCURVATURE \<Rightarrow> p DCURVATURE)"
  define r where "r = (\<lambda>i. case i of
            X \<Rightarrow> fst (pos fresnel (paramsChanged fresnel q) L)
          | Y \<Rightarrow> snd (pos fresnel (paramsChanged fresnel q) L)
          | ANGLE \<Rightarrow> pi + angle (paramsChanged fresnel q) L
          | LENGTH \<Rightarrow> L
          | CURVATURE \<Rightarrow> - curvature (paramsChanged fresnel q) L
          | DCURVATURE \<Rightarrow> q DCURVATURE)"
  have f1: "flip fresnel (paramsChanged fresnel p) = paramsChanged fresnel q"
    by (simp add: flip_params q_def L_def)
  have qL: "q LENGTH = L" by (simp add: q_def)
  have f2: "flip fresnel (paramsChanged fresnel q) = paramsChanged fresnel r"
    by (simp add: flip_params [of fresnel "paramsChanged fresnel q"] r_def qL)
  have qa: "q ANGLE = pi + (p ANGLE + L * (p CURVATURE + 0.5 * L * p DCURVATURE))"
    and qk: "q CURVATURE = - (p CURVATURE + L * p DCURVATURE)"
    and qd: "q DCURVATURE = p DCURVATURE"
    by (simp_all add: q_def angle_def curvature_def)
  have ra: "r ANGLE = p ANGLE + 2 * pi"
    and rk: "r CURVATURE = p CURVATURE"
    and rd: "r DCURVATURE = p DCURVATURE"
    by (simp_all add: r_def angle_def curvature_def qa qk qd algebra_simps)
  have "startPos q = pos fresnel (paramsChanged fresnel p) L"
    by (simp add: startPos_def q_def)
  then have sq: "startPos q = vadd (startPos p) (offset fresnel p L)"
    by (simp only: pos_offset)
  have "startPos r = pos fresnel (paramsChanged fresnel q) L"
    by (simp add: startPos_def r_def)
  then have sr: "startPos r = vadd (startPos q) (offset fresnel q L)"
    by (simp only: pos_offset)
  have "startPos r = startPos p"
    unfolding sr sq offset_reversed [OF odd regime qa qk qd]
    by (simp add: vadd_def smul_def)
  then show ?thesis
    unfolding f1 f2 pos_offset offset_2pi [OF ra rk rd] by simp
qed

theorem flip_twice_same_position_witness:
  "(\<forall>t. (\<lambda>u::real. (u, u)) (- t) = (- fst ((\<lambda>u. (u, u)) t), - snd ((\<lambda>u. (u, u)) t))) \<and>
   \<not> \<bar>((\<lambda>i. 0)(LENGTH := 1, DCURVATURE := 1)) DCURVATURE\<bar> < lit_1e_12 \<and>
   pos (\<lambda>u. (u, u))
       (flip (\<lambda>u. (u, u)) (flip (\<lambda>u. (u, u))
          (paramsChanged (\<lambda>u. (u, u)) ((\<lambda>i. 0)(LENGTH := 1, DCURVATURE := 1))))) (1 / 2)
     = pos (\<lambda>u. (u, u)) (paramsChanged (\<lambda>u. (u, u)) ((\<lambda>i. 0)(LENGTH := 1, DCURVATURE := 1))) (1 / 2)"
  using flip_twice_same_position
          [of "\<lambda>u. (u, u)" "(\<lambda>i. 0)(LENGTH := 1, DCURVATURE := 1)" "1 / 2"]
  by (simp add: lit_1e_12_def)

text \<open>
  C6 as stated fails in the flat regime when the curvature is not 0: the position
  treats the segment as a straight line while \<open>flip\<close> turns the start angle by the
  heading angle accumulated from the curvature. \<open>shallow\<close> is built by the constructor,
  is valid, starts at the origin, and after two flips starts about \<open>1.7e6\<close> away.
\<close>

theorem flip_twice_counterexample:
  "Clothoid exact fresnel0_ieee (Fin 0, Fin 0) (Fin 0) (Fin 2000000) (Fin (1 / 2000000))
     (Fin (1 / 2000000)) = as_ieee shallow \<and>
   isValid shallow \<and>
   pos fresnel0 shallow 0 = (0, 0) \<and>
   pos fresnel0 (flip fresnel0 (flip fresnel0 shallow)) 0
     = (2000000 - 2000000 * cos 1, - (2000000 * sin 1)) \<and>
   pos fresnel0 (flip fresnel0 (flip fresnel0 shallow)) 0 \<noteq> pos fresnel0 shallow 0"
proof -
  define q :: "Param \<Rightarrow> real" where
    "q = (\<lambda>i. case i of X \<Rightarrow> 2000000 | Y \<Rightarrow> 0 | ANGLE \<Rightarrow> pi + 1 | LENGTH \<Rightarrow> 2000000
                      | CURVATURE \<Rightarrow> - (1 / 2000000) | DCURVATURE \<Rightarrow> 0)"
  define r :: "Param \<Rightarrow> real" where
    "r = (\<lambda>i. case i of X \<Rightarrow> 2000000 - 2000000 * cos 1 | Y \<Rightarrow> - (2000000 * sin 1)
                      | ANGLE \<Rightarrow> 2 * pi | LENGTH \<Rightarrow> 2000000
                      | CURVATURE \<Rightarrow> 1 / 2000000 | DCURVATURE \<Rightarrow> 0)"
  have v: "isValid shallow" by (simp add: isValid_def shallow_def)
  have p0: "pos fresnel0 shallow s = (s, 0)" for s
    unfolding shallow_def by (subst pos_flat) (simp_all add: lit_1e_6_def)
  have f1: "flip fresnel0 shallow = paramsChanged fresnel0 q"
    unfolding flip_params p0
    by (rule arg_cong [where f = "paramsChanged fresnel0"], rule ext)
       (simp add: shallow_def q_def angle_def curvature_def split: Param.split)
  have p1: "pos fresnel0 (paramsChanged fresnel0 q) s = (2000000 - s * cos 1, - (s * sin 1))" for s
    by (subst pos_flat) (simp_all add: q_def lit_1e_6_def)
  have f2: "flip fresnel0 (paramsChanged fresnel0 q) = paramsChanged fresnel0 r"
    unfolding flip_params p1
    by (rule arg_cong [where f = "paramsChanged fresnel0"], rule ext)
       (simp add: q_def r_def angle_def curvature_def split: Param.split)
  have p2: "pos fresnel0 (paramsChanged fresnel0 r) 0 = (2000000 - 2000000 * cos 1, - (2000000 * sin 1))"
    by (subst pos_flat) (simp_all add: r_def lit_1e_6_def)
  have "(1::real) < pi" using pi_ge_two by linarith
  then have "0 < sin (1::real)" by (intro sin_gt_zero) simp_all
  then show ?thesis using shallow_constructed v p0 [of 0] p2 by (simp add: f1 f2)
qed

end
